theory Spec2Isabelle
  imports Main "HOL-Library.Char_ord" "HOL-Library.List_Lexorder" "HOL-Library.Multiset"
begin

section \<open>The MuNG class ontology of \<^verbatim>\<open>src/mung/ontology/mungClasses.ts\<close>\<close>

text \<open>
  The module holds one table, \<^verbatim>\<open>DEFINITIONS\<close>, one derivation,
  \<^verbatim>\<open>parseMungClassDefinition\<close>, and three exported views computed from them:
  \<^verbatim>\<open>MUNG_CLASSES\<close>, \<^verbatim>\<open>MUNG_CLASS_NAMES\<close> and \<^verbatim>\<open>MUNG_CLASSES_BY_NAME\<close>.
\<close>

subsection \<open>Strings and optional fields\<close>

text \<open>
  Class names and justification texts are plain ASCII in the source and are modelled as
  \<^typ>\<open>string\<close>. With \<^verbatim>\<open>Char_ord\<close> and \<^verbatim>\<open>List_Lexorder\<close> the order on
  \<^typ>\<open>string\<close> compares character codes position by position, a proper prefix first:
  on ASCII this is the order of JavaScript's default \<^verbatim>\<open>Array.prototype.sort\<close>
  (comparison of UTF-16 code units).

  The glyph strings (\<^verbatim>\<open>uc\<close>) hold code points outside Latin-1, so they are lists of
  UTF-16 code units; every escape of the table lies in the Basic Multilingual Plane and
  is one unit. \<open>ascii\<close> embeds the ASCII part of such a literal.
\<close>

type_synonym glyph_string = "nat list"

definition ascii :: "string \<Rightarrow> glyph_string" where
  "ascii s = map of_char s"

text \<open>
  An optional field \<^verbatim>\<open>f?: T\<close> is a \<^typ>\<open>'a option\<close>, \<^term>\<open>None\<close> for a missing
  property (\<^verbatim>\<open>undefined\<close>). The field \<^verbatim>\<open>notSmufl?: boolean | string\<close> is optional
  over a union.
\<close>

datatype bool_or_string = Bool bool | String string

text \<open>
  JavaScript's ToBoolean on the two field types the derivation negates: \<^verbatim>\<open>undefined\<close>
  and \<^verbatim>\<open>false\<close> are falsy, and so is the empty string.
\<close>

fun truthy_boolean :: "bool option \<Rightarrow> bool" where
  "truthy_boolean None = False"
| "truthy_boolean (Some b) = b"

fun truthy :: "bool_or_string option \<Rightarrow> bool" where
  "truthy None = False"
| "truthy (Some (Bool b)) = b"
| "truthy (Some (String s)) = (s \<noteq> [])"

subsection \<open>The two record types\<close>

text \<open>
  Modelled from the spec: the interface \<^verbatim>\<open>MungClass\<close> is imported from
  \<^verbatim>\<open>./MungClass\<close>, which is not among the sources. Its fields are those of the object
  literal that \<^verbatim>\<open>parseMungClassDefinition\<close> returns, with the types of the spec's
  ClassDescriptor: \<^verbatim>\<open>justifiedSmuflDivergence\<close> is \<^verbatim>\<open>boolean | undefined\<close>.
\<close>

record MungClass =
  className :: string
  unicode :: glyph_string
  isSmufl :: bool
  smuflEquivalents :: "string list option"
  isMuscimaPP20 :: bool
  isContainer :: bool
  otherSmuflDivergenceJustification :: "string option"
  justifiedSmuflDivergence :: "bool option"
  isTranscribable :: bool

text \<open>
  The interface \<^verbatim>\<open>MungClassDefinition\<close>. Two of its field names are also fields of
  \<^verbatim>\<open>MungClass\<close>; below, the unqualified names \<open>smuflEquivalents\<close> and
  \<open>otherSmuflDivergenceJustification\<close> are the fields of the definition, and those
  of the descriptor are written \<open>MungClass.smuflEquivalents\<close> and
  \<open>MungClass.otherSmuflDivergenceJustification\<close>.
\<close>

record MungClassDefinition =
  uc :: glyph_string
  mpp :: "bool option"
  notSmufl :: "bool_or_string option"
  smuflEquivalents :: "string list option"
  container :: "bool option"
  otherSmuflDivergenceJustification :: "string option"
  transcribable :: "bool option"

text \<open>
  The object literal \<^verbatim>\<open>{ uc: u }\<close>: every optional property missing. An entry of the
  table with further properties is this record updated with them, in the source's order.
\<close>

definition uc_only :: "glyph_string \<Rightarrow> MungClassDefinition" where
  "uc_only u = \<lparr>uc = u, mpp = None, notSmufl = None, smuflEquivalents = None,
     container = None, otherSmuflDivergenceJustification = None, transcribable = None\<rparr>"

subsection \<open>Object literals\<close>

text \<open>
  An object literal is the list of its property definitions in source order.
  \<open>object_get\<close> is the property read \<^verbatim>\<open>obj[key]\<close> on own properties: a later
  definition of the same name overrides an earlier one, and a missing property reads as
  \<^verbatim>\<open>undefined\<close> (\<^term>\<open>None\<close>). \<open>object_keys\<close> is \<^verbatim>\<open>Object.keys(obj)\<close>: each
  property name once, in the order of first appearance. (JavaScript lists names that are
  array indices first; the only use of the result sorts it, and the sorted array is the
  same for every order of the names, see \<open>sort_keys_any_order\<close>.)
\<close>

fun object_get :: "(string \<times> 'v) list \<Rightarrow> string \<Rightarrow> 'v option" where
  "object_get [] key = None"
| "object_get ((k, v) # props) key =
     (case object_get props key of
        Some v' \<Rightarrow> Some v'
      | None \<Rightarrow> if k = key then Some v else None)"

fun object_keys :: "(string \<times> 'v) list \<Rightarrow> string list" where
  "object_keys [] = []"
| "object_keys ((k, v) # props) = k # filter (\<lambda>k'. k' \<noteq> k) (object_keys props)"

subsection \<open>The table\<close>

text \<open>
  \<^verbatim>\<open>DEFINITIONS\<close>, entry by entry in the order of the source (lines 59 to 866); the
  entries the source comments out are left out, as they are not part of the object.
\<close>

definition DEFINITIONS :: "(string \<times> MungClassDefinition) list" where
  "DEFINITIONS = [
    (''unclassified'', (uc_only (ascii ''?''))
      \<lparr>mpp := Some True, notSmufl := Some (Bool True)\<rparr>),
    (''otherNumericSign'', (uc_only (ascii ''?''))
      \<lparr>mpp := Some True, notSmufl := Some (Bool True)\<rparr>),
    (''ossia'', (uc_only (ascii ''?''))
      \<lparr>mpp := Some True, notSmufl := Some (Bool True)\<rparr>),
    (''rehearsalMark'', (uc_only (ascii ''?''))
      \<lparr>mpp := Some True, notSmufl := Some (Bool True)\<rparr>),
    (''instrumentName'', (uc_only (ascii ''Pno''))
      \<lparr>mpp := Some True, notSmufl := Some (Bool True)\<rparr>),
    (''instrumentSpecific'', (uc_only (ascii ''?''))
      \<lparr>mpp := Some True, notSmufl := Some (Bool True)\<rparr>),
    (''staffGrouping'', (uc_only ([0xE000]))
      \<lparr>mpp := Some True, notSmufl := Some (Bool True),
       smuflEquivalents := Some [''brace'', ''bracket'']\<rparr>),
    (''brace'', (uc_only ([0xE000]))\<lparr>mpp := Some True\<rparr>),
    (''bracket'', (uc_only ([0xE002]))\<lparr>mpp := Some True\<rparr>),
    (''systemSeparator'', (uc_only ([0xE007]))
      \<lparr>mpp := Some True, notSmufl := Some (Bool True),
       smuflEquivalents := Some [''systemDivider'']\<rparr>),
    (''systemDivider'', uc_only ([0xE007])),
    (''splitBarDivider'', uc_only ([0xE00A])),
    (''custos'', uc_only ([0xE56C])),
    (''staffLine'', (uc_only ([0xE016, 0x2800]))
      \<lparr>mpp := Some True, notSmufl := Some (Bool True),
       otherSmuflDivergenceJustification := Some (''Cannot be rendered using a font. '' @ ''The staff1Line class is a different thing semantically.'')\<rparr>),
    (''staffSpace'', (uc_only ([0xE011]))
      \<lparr>mpp := Some True, notSmufl := Some (Bool True)\<rparr>),
    (''staff'', (uc_only ([0xE01A, 0x2800]))
      \<lparr>mpp := Some True, smuflEquivalents := Some [''staff5Lines'']\<rparr>),
    (''legerLine'', (uc_only ([0xE022]))\<lparr>mpp := Some True\<rparr>),
    (''barNumber'', (uc_only (ascii ''42''))
      \<lparr>mpp := Some True, notSmufl := Some (Bool True)\<rparr>),
    (''measureSeparator'', (uc_only ([0xE030]))
      \<lparr>mpp := Some True, notSmufl := Some (Bool True), container := Some True\<rparr>),
    (''barline'', (uc_only ([0xE030]))
      \<lparr>mpp := Some True, notSmufl := Some (Bool True),
       smuflEquivalents := Some [''barlineSingle'']\<rparr>),
    (''barlineSingle'', uc_only ([0xE030])),
    (''barlineFinal'', uc_only ([0xE032])),
    (''barlineHeavy'', (uc_only ([0xE034]))\<lparr>mpp := Some True\<rparr>),
    (''barlineWing'', (uc_only ([0xE002, 0xE043]))\<lparr>notSmufl := Some (Bool True)\<rparr>),
    (''repeat'', (uc_only ([0xE042]))
      \<lparr>mpp := Some True,
       smuflEquivalents := Some [''repeatLeft'', ''repeatRight'']\<rparr>),
    (''repeatText'', (uc_only (ascii ''D.C.''))
      \<lparr>notSmufl := Some (Bool True), transcribable := Some True\<rparr>),
    (''volta'', (uc_only (ascii ''1.''))\<lparr>mpp := Some True, container := Some True\<rparr>),
    (''voltaText'', (uc_only (ascii ''1.''))
      \<lparr>notSmufl := Some (Bool True), transcribable := Some True\<rparr>),
    (''repeatLeft'', uc_only ([0xE040])),
    (''repeatRight'', uc_only ([0xE041])),
    (''repeatDot'', (uc_only ([0xE043]))\<lparr>mpp := Some True\<rparr>),
    (''segno'', (uc_only ([0xE047]))\<lparr>mpp := Some True\<rparr>),
    (''coda'', (uc_only ([0xE048]))\<lparr>mpp := Some True\<rparr>),
    (''segnoSerpent'', (uc_only ([0xE04A]))\<lparr>notSmufl := Some (Bool True)\<rparr>),
    (''gClef'', (uc_only ([0xE050]))\<lparr>mpp := Some True\<rparr>),
    (''cClef'', (uc_only ([0xE05C]))\<lparr>mpp := Some True\<rparr>),
    (''cClefSquare'', uc_only ([0xE060])),
    (''fClef'', (uc_only ([0xE062]))\<lparr>mpp := Some True\<rparr>),
    (''unpitchedPercussionClef1'', uc_only ([0xE069])),
    (''unpitchedPercussionClef2'', uc_only ([0xE06A])),
    (''semipitchedPercussionClef1'', uc_only ([0xE06B])),
    (''semipitchedPercussionClef2'', uc_only ([0xE06C])),
    (''6stringTabClef'', uc_only ([0xE06D])),
    (''4stringTabClef'', uc_only ([0xE06E])),
    (''gClefChange'', uc_only ([0xE07A])),
    (''cClefChange'', uc_only ([0xE07B])),
    (''fClefChange'', uc_only ([0xE07C])),
    (''clef8'', uc_only ([0xE07D])),
    (''clef15'', uc_only ([0xE07E])),
    (''timeSignature'', (uc_only ([0xF5FC]))
      \<lparr>mpp := Some True, notSmufl := Some (Bool True), container := Some True\<rparr>),
    (''timeSig0'', uc_only ([0xE080])),
    (''timeSig1'', uc_only ([0xE081])),
    (''timeSig2'', uc_only ([0xE082])),
    (''timeSig3'', uc_only ([0xE083])),
    (''timeSig4'', uc_only ([0xE084])),
    (''timeSig5'', uc_only ([0xE085])),
    (''timeSig6'', uc_only ([0xE086])),
    (''timeSig7'', uc_only ([0xE087])),
    (''timeSig8'', uc_only ([0xE088])),
    (''timeSig9'', uc_only ([0xE089])),
    (''timeSigCommon'', (uc_only ([0xE08A]))\<lparr>mpp := Some True\<rparr>),
    (''mensuralProlationCombiningDot'', (uc_only ([0xE914]))\<lparr>mpp := Some True\<rparr>),
    (''timeSigCutCommon'', (uc_only ([0xE08B]))\<lparr>mpp := Some True\<rparr>),
    (''timeSigSlash'', uc_only ([0xEC84])),
    (''timeSigFractionalSlash'', uc_only ([0xE08E])),
    (''timeSigPlus'', uc_only ([0xE08C])),
    (''timeSigEquals'', uc_only ([0xE08F])),
    (''timeSigMinus'', uc_only ([0xE090])),
    (''timeSigMultiply'', uc_only ([0xE091])),
    (''timeSigX'', uc_only ([0xE09C])),
    (''noteheadDoubleWhole'', uc_only ([0xE0A0])),
    (''noteheadDoubleWholeSquare'', uc_only ([0xE0A1])),
    (''noteheadWhole'', (uc_only ([0xE0A2]))\<lparr>mpp := Some True\<rparr>),
    (''noteheadHalf'', (uc_only ([0xE0A3]))\<lparr>mpp := Some True\<rparr>),
    (''noteheadBlack'', uc_only ([0xE0A4])),
    (''noteheadFull'', (uc_only ([0xE0A4]))
      \<lparr>mpp := Some True, notSmufl := Some (Bool True),
       smuflEquivalents := Some [''noteheadBlack'']\<rparr>),
    (''noteheadXBlack'', uc_only ([0xE0A9])),
    (''noteheadXOrnate'', uc_only ([0xE0AA])),
    (''noteheadWholeSmall'', uc_only ([0xE0A2])),
    (''noteheadHalfSmall'', (uc_only ([0xE0A3]))\<lparr>mpp := Some True\<rparr>),
    (''noteheadBlackSmall'', uc_only ([0xE0A4])),
    (''noteheadFullSmall'', (uc_only ([0xE0A4]))
      \<lparr>mpp := Some True, notSmufl := Some (Bool True),
       smuflEquivalents := Some [''noteheadBlackSmall'']\<rparr>),
    (''noteheadSlashVerticalEnds'', uc_only ([0xE100])),
    (''noteheadSlashHorizontalEnds'', uc_only ([0xE101])),
    (''noteheadSlashWhiteWhole'', uc_only ([0xE102])),
    (''noteheadSlashWhiteHalf'', uc_only ([0xE103])),
    (''augmentationDot'', (uc_only ([0xE1E7]))\<lparr>mpp := Some True\<rparr>),
    (''stem'', (uc_only ([0xE210]))\<lparr>mpp := Some True\<rparr>),
    (''tremoloBeam'', (uc_only ([0xE1F1] @ ascii '' '' @ [0xE1FA, 0xE1F1]))
      \<lparr>notSmufl := Some (Bool True),
       otherSmuflDivergenceJustification := Some ''Cannot be rendered using a font''\<rparr>),
    (''tremoloMark'', (uc_only ([0xE1F1] @ ascii '' '' @ [0xE1FA, 0xE1F1]))
      \<lparr>mpp := Some True, notSmufl := Some (Bool True)\<rparr>),
    (''multipleNoteTremolo'', (uc_only ([0xE1F1] @ ascii '' '' @ [0xE1FA, 0xE1F1]))
      \<lparr>mpp := Some True, notSmufl := Some (Bool True)\<rparr>),
    (''singleNoteTremolo'', (uc_only ([0xE220]))
      \<lparr>mpp := Some True, notSmufl := Some (Bool True)\<rparr>),
    (''tremolo1'', uc_only ([0xE220])),
    (''tremolo2'', uc_only ([0xE221])),
    (''tremolo3'', uc_only ([0xE222])),
    (''tremolo4'', uc_only ([0xE223])),
    (''tremolo5'', uc_only ([0xE224])),
    (''buzzRoll'', uc_only ([0xE22A])),
    (''flag8thUp'', (uc_only ([0xE1D7]))\<lparr>mpp := Some True\<rparr>),
    (''flag8thDown'', (uc_only ([0xE1D8]))\<lparr>mpp := Some True\<rparr>),
    (''flag16thUp'', (uc_only ([0xE1D9]))\<lparr>mpp := Some True\<rparr>),
    (''flag16thDown'', (uc_only ([0xE1DA]))\<lparr>mpp := Some True\<rparr>),
    (''flag32ndUp'', (uc_only ([0xE1DB]))\<lparr>mpp := Some True\<rparr>),
    (''flag32ndDown'', (uc_only ([0xE1DC]))\<lparr>mpp := Some True\<rparr>),
    (''flag64thUp'', (uc_only ([0xE1DD]))\<lparr>mpp := Some True\<rparr>),
    (''flag64thDown'', (uc_only ([0xE1DE]))\<lparr>mpp := Some True\<rparr>),
    (''flag128thUp'', uc_only ([0xE1DF])),
    (''flag128thDown'', uc_only ([0xE1E0])),
    (''flag256thUp'', uc_only ([0xE1E1])),
    (''flag256thDown'', uc_only ([0xE1E2])),
    (''flag512thUp'', uc_only ([0xE1E3])),
    (''flag512thDown'', uc_only ([0xE1E4])),
    (''flag1024thUp'', uc_only ([0xE1E5])),
    (''flag1024thDown'', uc_only ([0xE1E6])),
    (''keySignature'', (uc_only ([0xE269]))
      \<lparr>mpp := Some True, notSmufl := Some (Bool True), container := Some True\<rparr>),
    (''accidentalFlat'', (uc_only ([0xE260]))\<lparr>mpp := Some True\<rparr>),
    (''accidentalNatural'', (uc_only ([0xE261]))\<lparr>mpp := Some True\<rparr>),
    (''accidentalSharp'', (uc_only ([0xE262]))\<lparr>mpp := Some True\<rparr>),
    (''accidentalDoubleSharp'', (uc_only ([0xE263]))\<lparr>mpp := Some True\<rparr>),
    (''accidentalDoubleFlat'', (uc_only ([0xE264]))\<lparr>mpp := Some True\<rparr>),
    (''accidentalTripleSharp'', uc_only ([0xE265])),
    (''accidentalTripleFlat'', uc_only ([0xE266])),
    (''accidentalNaturalFlat'', uc_only ([0xE267])),
    (''accidentalNaturalSharp'', uc_only ([0xE268])),
    (''accidentalSharpSharp'', uc_only ([0xE269])),
    (''accidentalParensLeft'', uc_only ([0xE26A])),
    (''accidentalParensRight'', uc_only ([0xE26B])),
    (''accidentalBracketLeft'', uc_only ([0xE26C])),
    (''accidentalBracketRight'', uc_only ([0xE26D])),
    (''double_sharp'', (uc_only ([0xE263]))
      \<lparr>mpp := Some True, notSmufl := Some (Bool True),
       smuflEquivalents := Some [''accidentalDoubleSharp'']\<rparr>),
    (''double_flat'', (uc_only ([0xE264]))
      \<lparr>mpp := Some True, notSmufl := Some (Bool True),
       smuflEquivalents := Some [''accidentalDoubleFlat'']\<rparr>),
    (''articulationAccent'', (uc_only ([0xE4A0]))
      \<lparr>mpp := Some True, notSmufl := Some (Bool True),
       smuflEquivalents := Some [''articAccentAbove'', ''articAccentBelow'']\<rparr>),
    (''articulationMarcatoAbove'', (uc_only ([0xE4AC]))
      \<lparr>mpp := Some True, notSmufl := Some (Bool True),
       smuflEquivalents := Some [''articMarcatoAbove'']\<rparr>),
    (''articulationMarcatoBelow'', (uc_only ([0xE4AD]))
      \<lparr>mpp := Some True, notSmufl := Some (Bool True),
       smuflEquivalents := Some [''articMarcatoBelow'']\<rparr>),
    (''articulationStaccato'', (uc_only ([0xE4A2]))
      \<lparr>mpp := Some True, notSmufl := Some (Bool True),
       smuflEquivalents := Some [''articStaccatoAbove'', ''articStaccatoBelow'']\<rparr>),
    (''articulationTenuto'', (uc_only ([0xE4A4]))
      \<lparr>mpp := Some True, notSmufl := Some (Bool True),
       smuflEquivalents := Some [''articTenutoAbove'', ''articTenutoBelow'']\<rparr>),
    (''articAccentAbove'', uc_only ([0xE4A0])),
    (''articAccentBelow'', uc_only ([0xE4A1])),
    (''articStaccatoAbove'', uc_only ([0xE4A2])),
    (''articStaccatoBelow'', uc_only ([0xE4A3])),
    (''articTenutoAbove'', uc_only ([0xE4A4])),
    (''articTenutoBelow'', uc_only ([0xE4A5])),
    (''articStaccatissimoAbove'', uc_only ([0xE4A6])),
    (''articStaccatissimoBelow'', uc_only ([0xE4A7])),
    (''articMarcatoAbove'', uc_only ([0xE4AC])),
    (''articMarcatoBelow'', uc_only ([0xE4AD])),
    (''breathMark'', (uc_only ([0xE4CE]))
      \<lparr>mpp := Some True, notSmufl := Some (Bool True),
       smuflEquivalents := Some [''breathMarkComma'', ''breathMarkTick'', ''breathMarkUpbow'']\<rparr>),
    (''fermataAbove'', (uc_only ([0xE4C0]))\<lparr>mpp := Some True\<rparr>),
    (''fermataBelow'', (uc_only ([0xE4C1]))\<lparr>mpp := Some True\<rparr>),
    (''breathMarkComma'', uc_only ([0xE4CE])),
    (''breathMarkTick'', uc_only ([0xE4CF])),
    (''breathMarkUpbow'', uc_only ([0xE4D0])),
    (''caesura'', uc_only ([0xE4D1])),
    (''restLonga'', uc_only ([0xE01A, 0x00A0, 0x00A0, 0xE4E1])),
    (''restDoubleWhole'', uc_only ([0xE01A, 0x00A0, 0x00A0, 0xE4E2])),
    (''restBreve'', (uc_only ([0xE01A, 0x00A0, 0x00A0, 0xE4E2]))
      \<lparr>notSmufl := Some (Bool True),
       smuflEquivalents := Some [''restDoubleWhole'']\<rparr>),
    (''restWhole'', (uc_only ([0xE01A, 0x00A0, 0x00A0, 0xE4E3]))\<lparr>mpp := Some True\<rparr>),
    (''restSemibreve'', (uc_only ([0xE01A, 0x00A0, 0x00A0, 0xE4E3]))
      \<lparr>notSmufl := Some (Bool True), smuflEquivalents := Some [''restWhole'']\<rparr>),
    (''restHalf'', (uc_only ([0xE01A, 0x00A0, 0x00A0, 0xE4E4]))\<lparr>mpp := Some True\<rparr>),
    (''restMinim'', (uc_only ([0xE01A, 0x00A0, 0x00A0, 0xE4E4]))
      \<lparr>notSmufl := Some (Bool True), smuflEquivalents := Some [''restHalf'']\<rparr>),
    (''restQuarter'', (uc_only ([0xE4E5]))\<lparr>mpp := Some True\<rparr>),
    (''restCrotchet'', (uc_only ([0xE4E5]))
      \<lparr>notSmufl := Some (Bool True), smuflEquivalents := Some [''restQuarter'']\<rparr>),
    (''rest8th'', (uc_only ([0xE4E6]))\<lparr>mpp := Some True\<rparr>),
    (''restQuaver'', (uc_only ([0xE4E6]))
      \<lparr>notSmufl := Some (Bool True), smuflEquivalents := Some [''rest8th'']\<rparr>),
    (''rest16th'', (uc_only ([0xE4E7]))\<lparr>mpp := Some True\<rparr>),
    (''restSemiquaver'', (uc_only ([0xE4E7]))
      \<lparr>notSmufl := Some (Bool True), smuflEquivalents := Some [''rest16th'']\<rparr>),
    (''rest32nd'', (uc_only ([0xE4E8]))\<lparr>mpp := Some True\<rparr>),
    (''restDemisemiquaver'', (uc_only ([0xE4E8]))
      \<lparr>notSmufl := Some (Bool True), smuflEquivalents := Some [''rest32nd'']\<rparr>),
    (''rest64th'', (uc_only ([0xE4E9]))\<lparr>mpp := Some True\<rparr>),
    (''rest128th'', uc_only ([0xE4EA])),
    (''rest256th'', uc_only ([0xE4EB])),
    (''rest512th'', uc_only ([0xE4EC])),
    (''rest1024th'', uc_only ([0xE4ED])),
    (''restHBar'', uc_only ([0xE4EE])),
    (''restText'', (uc_only (ascii ''R''))
      \<lparr>notSmufl := Some (Bool True), transcribable := Some True\<rparr>),
    (''multiMeasureRest'', (uc_only ([0xE4EE]))
      \<lparr>mpp := Some True, notSmufl := Some (Bool True),
       smuflEquivalents := Some [''restHBar'']\<rparr>),
    (''repeat1Bar'', (uc_only ([0xE500]))\<lparr>mpp := Some True\<rparr>),
    (''repeatOneBar'', (uc_only ([0xE500]))
      \<lparr>notSmufl := Some (Bool True), smuflEquivalents := Some [''repeat1Bar'']\<rparr>),
    (''repeat2Bars'', uc_only ([0xE501])),
    (''repeat4Bars'', uc_only ([0xE502])),
    (''repeatBarUpperDot'', uc_only ([0xE503])),
    (''repeatBarSlash'', uc_only ([0xE504])),
    (''repeatBarLowerDot'', uc_only ([0xE505])),
    (''unisonoText'', (uc_only (ascii ''col.''))
      \<lparr>notSmufl := Some (Bool True), transcribable := Some True\<rparr>),
    (''unisonoContinuation'', (uc_only ([0xE00A]))\<lparr>notSmufl := Some (Bool True)\<rparr>),
    (''transpositionText'', (uc_only ([0xE510]))
      \<lparr>mpp := Some True, notSmufl := Some (Bool True),
       smuflEquivalents := Some [''ottava''], transcribable := Some True\<rparr>),
    (''ottava'', uc_only ([0xE510])),
    (''ottavaAlta'', uc_only ([0xE511])),
    (''ottavaBassa'', uc_only ([0xE512])),
    (''ottavaBassaBa'', uc_only ([0xE513])),
    (''dynamicsText'', (uc_only ([0xE52D]))
      \<lparr>mpp := Some True, notSmufl := Some (Bool True), container := Some True,
       transcribable := Some True\<rparr>),
    (''dynamicPiano'', uc_only ([0xE520])),
    (''dynamicMezzo'', uc_only ([0xE521])),
    (''dynamicForte'', uc_only ([0xE522])),
    (''dynamicRinforzando'', uc_only ([0xE523])),
    (''dynamicSforzando'', uc_only ([0xE524])),
    (''dynamicZ'', uc_only ([0xE525])),
    (''dynamicNiente'', uc_only ([0xE526])),
    (''dynamicCrescendo'', (uc_only (ascii ''cres.''))
      \<lparr>notSmufl := Some (Bool True), transcribable := Some True\<rparr>),
    (''dynamicCrescendoSpanner'', (uc_only (ascii ''_'' @ [0x00A0] @ ascii ''_''))
      \<lparr>notSmufl := Some (Bool True),
       otherSmuflDivergenceJustification := Some ''Cannot be rendered using a font''\<rparr>),
    (''dynamicDiminuendo'', (uc_only (ascii ''dim.''))
      \<lparr>notSmufl := Some (Bool True), transcribable := Some True\<rparr>),
    (''dynamicDiminuendoSpanner'', (uc_only (ascii ''_'' @ [0x00A0] @ ascii ''_''))
      \<lparr>notSmufl := Some (Bool True),
       otherSmuflDivergenceJustification := Some ''Cannot be rendered using a font''\<rparr>),
    (''dynamicCrescendoHairpin'', (uc_only ([0xE53E]))\<lparr>mpp := Some True\<rparr>),
    (''dynamicDiminuendoHairpin'', (uc_only ([0xE53F]))\<lparr>mpp := Some True\<rparr>),
    (''dynamicNienteForHairpin'', uc_only ([0xE541])),
    (''dynamicLetterF'', (uc_only ([0xE522]))
      \<lparr>mpp := Some True, notSmufl := Some (Bool True),
       smuflEquivalents := Some [''dynamicForte'']\<rparr>),
    (''dynamicLetterM'', (uc_only ([0xE521]))
      \<lparr>mpp := Some True, notSmufl := Some (Bool True),
       smuflEquivalents := Some [''dynamicMezzo'']\<rparr>),
    (''dynamicLetterN'', (uc_only ([0xE526]))
      \<lparr>mpp := Some True, notSmufl := Some (Bool True),
       smuflEquivalents := Some [''dynamicNiente'']\<rparr>),
    (''dynamicLetterP'', (uc_only ([0xE520]))
      \<lparr>mpp := Some True, notSmufl := Some (Bool True),
       smuflEquivalents := Some [''dynamicPiano'']\<rparr>),
    (''dynamicLetterR'', (uc_only ([0xE523]))
      \<lparr>mpp := Some True, notSmufl := Some (Bool True),
       smuflEquivalents := Some [''dynamicRinforzando'']\<rparr>),
    (''dynamicLetterS'', (uc_only ([0xE524]))
      \<lparr>mpp := Some True, notSmufl := Some (Bool True),
       smuflEquivalents := Some [''dynamicSforzando'']\<rparr>),
    (''dynamicLetterZ'', (uc_only ([0xE525]))
      \<lparr>mpp := Some True, notSmufl := Some (Bool True),
       smuflEquivalents := Some [''dynamicZ'']\<rparr>),
    (''lyricsText'', (uc_only (ascii ''ly''))
      \<lparr>mpp := Some True, notSmufl := Some (Bool True), transcribable := Some True\<rparr>),
    (''verseNumber'', (uc_only (ascii ''1.''))
      \<lparr>notSmufl := Some (Bool True), transcribable := Some True\<rparr>),
    (''lyricsUnisono'', (uc_only ([0xE00A]))\<lparr>notSmufl := Some (Bool True)\<rparr>),
    (''tempoText'', (uc_only (ascii ''te''))
      \<lparr>mpp := Some True, notSmufl := Some (Bool True),
       otherSmuflDivergenceJustification := Some ''Possibly a composite object'',
       transcribable := Some True\<rparr>),
    (''tempoRitardando'', (uc_only (ascii ''rit.''))
      \<lparr>mpp := Some False, notSmufl := Some (Bool True),
       transcribable := Some True\<rparr>),
    (''tempoRitardandoSpanner'', (uc_only (ascii ''_'' @ [0x00A0] @ ascii ''_''))
      \<lparr>notSmufl := Some (Bool True),
       otherSmuflDivergenceJustification := Some ''Cannot be rendered using a font''\<rparr>),
    (''tempoAccelerando'', (uc_only (ascii ''acc.''))
      \<lparr>mpp := Some False, notSmufl := Some (Bool True),
       transcribable := Some True\<rparr>),
    (''tempoAccelerandoSpanner'', (uc_only (ascii ''_'' @ [0x00A0] @ ascii ''_''))
      \<lparr>notSmufl := Some (Bool True),
       otherSmuflDivergenceJustification := Some ''Cannot be rendered using a font''\<rparr>),
    (''tempoATempo'', (uc_only (ascii ''a tempo''))
      \<lparr>mpp := Some False, notSmufl := Some (Bool True),
       transcribable := Some True\<rparr>),
    (''interpretationText'', (uc_only (ascii ''in''))
      \<lparr>notSmufl := Some (Bool True), transcribable := Some True\<rparr>),
    (''metadataText'', (uc_only (ascii ''M''))
      \<lparr>notSmufl := Some (Bool True), transcribable := Some True\<rparr>),
    (''measureNumber'', (uc_only (ascii ''mn''))
      \<lparr>notSmufl := Some (Bool True), transcribable := Some True\<rparr>),
    (''pageNumber'', (uc_only (ascii ''pn''))
      \<lparr>notSmufl := Some (Bool True), transcribable := Some True\<rparr>),
    (''otherText'', (uc_only (ascii ''T''))
      \<lparr>mpp := Some True, notSmufl := Some (Bool True), transcribable := Some True\<rparr>),
    (''ornament'', (uc_only ([0xE56F]))
      \<lparr>mpp := Some True, notSmufl := Some (Bool True),
       otherSmuflDivergenceJustification := Some ''Generinc unspecified ornament''\<rparr>),
    (''graceNoteSlashStemUp'', uc_only ([0xE560])),
    (''graceNoteSlashStemDown'', uc_only ([0xE561])),
    (''ornamentTrill'', (uc_only ([0xE566]))\<lparr>mpp := Some True\<rparr>),
    (''ornamentTurn'', uc_only ([0xE567])),
    (''ornamentTurnInverted'', uc_only ([0xE568])),
    (''ornamentTurnSlash'', uc_only ([0xE569])),
    (''ornamentTurnUp'', uc_only ([0xE56A] @ ascii ''}'')),
    (''ornamentTurnUpS'', uc_only ([0xE56B])),
    (''ornamentShortTrill'', uc_only ([0xE56C])),
    (''ornamentMordent'', uc_only ([0xE56D])),
    (''ornamentTremblement'', uc_only ([0xE56E])),
    (''ornamentHaydn'', uc_only ([0xE56F])),
    (''arpeggio'', (uc_only ([0xE63C]))
      \<lparr>mpp := Some True, notSmufl := Some (Bool True),
       smuflEquivalents := Some [''arpeggiato'']\<rparr>),
    (''arpeggiato'', uc_only ([0xE63C])),
    (''arpeggiatoUp'', uc_only ([0xE634])),
    (''arpeggiatoDown'', uc_only ([0xE635])),
    (''tuplet'', (uc_only ([0xE1F0, 0xE201, 0xE1F0, 0xE202, 0xE1F0, 0xE203]))
      \<lparr>mpp := Some True, notSmufl := Some (Bool True), container := Some True\<rparr>),
    (''tupletBracket'', (uc_only ([0xE201] @ ascii '' '' @ [0xE203]))
      \<lparr>mpp := Some True, notSmufl := Some (Bool True),
       otherSmuflDivergenceJustification := Some ''Cannot be rendered using a font''\<rparr>),
    (''tuplet0'', uc_only ([0xE880])),
    (''tuplet1'', uc_only ([0xE881])),
    (''tuplet2'', uc_only ([0xE882])),
    (''tuplet3'', uc_only ([0xE883])),
    (''tuplet4'', uc_only ([0xE884])),
    (''tuplet5'', uc_only ([0xE885])),
    (''tuplet6'', uc_only ([0xE886])),
    (''tuplet7'', uc_only ([0xE887])),
    (''tuplet8'', uc_only ([0xE888])),
    (''tuplet9'', uc_only ([0xE889])),
    (''tupletColon'', uc_only ([0xE88A])),
    (''beam'', (uc_only ([0xE1F0, 0xE1F2]))
      \<lparr>mpp := Some True, notSmufl := Some (Bool True),
       otherSmuflDivergenceJustification := Some ''Cannot be rendered using a font''\<rparr>),
    (''slur'', (uc_only ([0xE4BB]))
      \<lparr>mpp := Some True, notSmufl := Some (Bool True),
       otherSmuflDivergenceJustification := Some ''Cannot be rendered using a font''\<rparr>),
    (''tie'', (uc_only ([0xE4BB]))
      \<lparr>mpp := Some True, notSmufl := Some (Bool True),
       otherSmuflDivergenceJustification := Some ''Cannot be rendered using a font''\<rparr>),
    (''figuredBassText'', (uc_only (ascii ''B''))
      \<lparr>mpp := Some True, notSmufl := Some (Bool True),
       otherSmuflDivergenceJustification := Some ''Possibly a composite object'',
       transcribable := Some True\<rparr>),
    (''wiggleTrill'', (uc_only ([0xEAA4, 0xEAA4, 0xEAA4]))\<lparr>mpp := Some True\<rparr>),
    (''dottedHorizontalSpanner'', (uc_only (ascii ''_'' @ [0x00A0] @ ascii ''_''))
      \<lparr>mpp := Some True\<rparr>),
    (''horizontalSpanner'', (uc_only (ascii ''_''))\<lparr>mpp := Some True\<rparr>),
    (''glissando'', (uc_only (ascii ''/''))\<lparr>mpp := Some True\<rparr>),
    (''characterCapitalA'', (uc_only (ascii ''A''))
      \<lparr>mpp := Some True, notSmufl := Some (Bool True)\<rparr>),
    (''characterCapitalB'', (uc_only (ascii ''B''))
      \<lparr>mpp := Some True, notSmufl := Some (Bool True)\<rparr>),
    (''characterCapitalC'', (uc_only (ascii ''C''))
      \<lparr>mpp := Some True, notSmufl := Some (Bool True)\<rparr>),
    (''characterCapitalD'', (uc_only (ascii ''D''))
      \<lparr>mpp := Some True, notSmufl := Some (Bool True)\<rparr>),
    (''characterCapitalE'', (uc_only (ascii ''E''))
      \<lparr>mpp := Some True, notSmufl := Some (Bool True)\<rparr>),
    (''characterCapitalF'', (uc_only (ascii ''F''))
      \<lparr>mpp := Some True, notSmufl := Some (Bool True)\<rparr>),
    (''characterCapitalG'', (uc_only (ascii ''G''))
      \<lparr>mpp := Some True, notSmufl := Some (Bool True)\<rparr>),
    (''characterCapitalH'', (uc_only (ascii ''H''))
      \<lparr>mpp := Some True, notSmufl := Some (Bool True)\<rparr>),
    (''characterCapitalI'', (uc_only (ascii ''I''))
      \<lparr>mpp := Some True, notSmufl := Some (Bool True)\<rparr>),
    (''characterCapitalJ'', (uc_only (ascii ''J''))
      \<lparr>mpp := Some True, notSmufl := Some (Bool True)\<rparr>),
    (''characterCapitalK'', (uc_only (ascii ''K''))
      \<lparr>mpp := Some True, notSmufl := Some (Bool True)\<rparr>),
    (''characterCapitalL'', (uc_only (ascii ''L''))
      \<lparr>mpp := Some True, notSmufl := Some (Bool True)\<rparr>),
    (''characterCapitalM'', (uc_only (ascii ''M''))
      \<lparr>mpp := Some True, notSmufl := Some (Bool True)\<rparr>),
    (''characterCapitalN'', (uc_only (ascii ''N''))
      \<lparr>mpp := Some True, notSmufl := Some (Bool True)\<rparr>),
    (''characterCapitalO'', (uc_only (ascii ''O''))
      \<lparr>mpp := Some True, notSmufl := Some (Bool True)\<rparr>),
    (''characterCapitalP'', (uc_only (ascii ''P''))
      \<lparr>mpp := Some True, notSmufl := Some (Bool True)\<rparr>),
    (''characterCapitalQ'', (uc_only (ascii ''Q''))
      \<lparr>mpp := Some True, notSmufl := Some (Bool True)\<rparr>),
    (''characterCapitalR'', (uc_only (ascii ''R''))
      \<lparr>mpp := Some True, notSmufl := Some (Bool True)\<rparr>),
    (''characterCapitalS'', (uc_only (ascii ''S''))
      \<lparr>mpp := Some True, notSmufl := Some (Bool True)\<rparr>),
    (''characterCapitalT'', (uc_only (ascii ''T''))
      \<lparr>mpp := Some True, notSmufl := Some (Bool True)\<rparr>),
    (''characterCapitalU'', (uc_only (ascii ''U''))
      \<lparr>mpp := Some True, notSmufl := Some (Bool True)\<rparr>),
    (''characterCapitalV'', (uc_only (ascii ''V''))
      \<lparr>mpp := Some True, notSmufl := Some (Bool True)\<rparr>),
    (''characterCapitalW'', (uc_only (ascii ''W''))
      \<lparr>mpp := Some True, notSmufl := Some (Bool True)\<rparr>),
    (''characterCapitalX'', (uc_only (ascii ''X''))
      \<lparr>mpp := Some True, notSmufl := Some (Bool True)\<rparr>),
    (''characterCapitalY'', (uc_only (ascii ''Y''))
      \<lparr>mpp := Some True, notSmufl := Some (Bool True)\<rparr>),
    (''characterCapitalZ'', (uc_only (ascii ''Z''))
      \<lparr>mpp := Some True, notSmufl := Some (Bool True)\<rparr>),
    (''characterSmallA'', (uc_only (ascii ''a''))
      \<lparr>mpp := Some True, notSmufl := Some (Bool True)\<rparr>),
    (''characterSmallB'', (uc_only (ascii ''b''))
      \<lparr>mpp := Some True, notSmufl := Some (Bool True)\<rparr>),
    (''characterSmallC'', (uc_only (ascii ''c''))
      \<lparr>mpp := Some True, notSmufl := Some (Bool True)\<rparr>),
    (''characterSmallD'', (uc_only (ascii ''d''))
      \<lparr>mpp := Some True, notSmufl := Some (Bool True)\<rparr>),
    (''characterSmallE'', (uc_only (ascii ''e''))
      \<lparr>mpp := Some True, notSmufl := Some (Bool True)\<rparr>),
    (''characterSmallF'', (uc_only (ascii ''f''))
      \<lparr>mpp := Some True, notSmufl := Some (Bool True)\<rparr>),
    (''characterSmallG'', (uc_only (ascii ''g''))
      \<lparr>mpp := Some True, notSmufl := Some (Bool True)\<rparr>),
    (''characterSmallH'', (uc_only (ascii ''h''))
      \<lparr>mpp := Some True, notSmufl := Some (Bool True)\<rparr>),
    (''characterSmallI'', (uc_only (ascii ''i''))
      \<lparr>mpp := Some True, notSmufl := Some (Bool True)\<rparr>),
    (''characterSmallJ'', (uc_only (ascii ''j''))
      \<lparr>mpp := Some True, notSmufl := Some (Bool True)\<rparr>),
    (''characterSmallK'', (uc_only (ascii ''k''))
      \<lparr>mpp := Some True, notSmufl := Some (Bool True)\<rparr>),
    (''characterSmallL'', (uc_only (ascii ''l''))
      \<lparr>mpp := Some True, notSmufl := Some (Bool True)\<rparr>),
    (''characterSmallM'', (uc_only (ascii ''m''))
      \<lparr>mpp := Some True, notSmufl := Some (Bool True)\<rparr>),
    (''characterSmallN'', (uc_only (ascii ''n''))
      \<lparr>mpp := Some True, notSmufl := Some (Bool True)\<rparr>),
    (''characterSmallO'', (uc_only (ascii ''o''))
      \<lparr>mpp := Some True, notSmufl := Some (Bool True)\<rparr>),
    (''characterSmallP'', (uc_only (ascii ''p''))
      \<lparr>mpp := Some True, notSmufl := Some (Bool True)\<rparr>),
    (''characterSmallQ'', (uc_only (ascii ''q''))
      \<lparr>mpp := Some True, notSmufl := Some (Bool True)\<rparr>),
    (''characterSmallR'', (uc_only (ascii ''r''))
      \<lparr>mpp := Some True, notSmufl := Some (Bool True)\<rparr>),
    (''characterSmallS'', (uc_only (ascii ''s''))
      \<lparr>mpp := Some True, notSmufl := Some (Bool True)\<rparr>),
    (''characterSmallT'', (uc_only (ascii ''t''))
      \<lparr>mpp := Some True, notSmufl := Some (Bool True)\<rparr>),
    (''characterSmallU'', (uc_only (ascii ''u''))
      \<lparr>mpp := Some True, notSmufl := Some (Bool True)\<rparr>),
    (''characterSmallV'', (uc_only (ascii ''v''))
      \<lparr>mpp := Some True, notSmufl := Some (Bool True)\<rparr>),
    (''characterSmallW'', (uc_only (ascii ''w''))
      \<lparr>mpp := Some True, notSmufl := Some (Bool True)\<rparr>),
    (''characterSmallX'', (uc_only (ascii ''x''))
      \<lparr>mpp := Some True, notSmufl := Some (Bool True)\<rparr>),
    (''characterSmallY'', (uc_only (ascii ''y''))
      \<lparr>mpp := Some True, notSmufl := Some (Bool True)\<rparr>),
    (''characterSmallZ'', (uc_only (ascii ''z''))
      \<lparr>mpp := Some True, notSmufl := Some (Bool True)\<rparr>),
    (''characterDot'', (uc_only (ascii ''.''))
      \<lparr>mpp := Some True, notSmufl := Some (Bool True)\<rparr>),
    (''characterOther'', (uc_only (ascii ''$''))
      \<lparr>mpp := Some True, notSmufl := Some (Bool True)\<rparr>),
    (''numeral0'', (uc_only (ascii ''0''))
      \<lparr>mpp := Some True, notSmufl := Some (Bool True)\<rparr>),
    (''numeral1'', (uc_only (ascii ''1''))
      \<lparr>mpp := Some True, notSmufl := Some (Bool True)\<rparr>),
    (''numeral2'', (uc_only (ascii ''2''))
      \<lparr>mpp := Some True, notSmufl := Some (Bool True)\<rparr>),
    (''numeral3'', (uc_only (ascii ''3''))
      \<lparr>mpp := Some True, notSmufl := Some (Bool True)\<rparr>),
    (''numeral4'', (uc_only (ascii ''4''))
      \<lparr>mpp := Some True, notSmufl := Some (Bool True)\<rparr>),
    (''numeral5'', (uc_only (ascii ''5''))
      \<lparr>mpp := Some True, notSmufl := Some (Bool True)\<rparr>),
    (''numeral6'', (uc_only (ascii ''6''))
      \<lparr>mpp := Some True, notSmufl := Some (Bool True)\<rparr>),
    (''numeral7'', (uc_only (ascii ''7''))
      \<lparr>mpp := Some True, notSmufl := Some (Bool True)\<rparr>),
    (''numeral8'', (uc_only (ascii ''8''))
      \<lparr>mpp := Some True, notSmufl := Some (Bool True)\<rparr>),
    (''numeral9'', (uc_only (ascii ''9''))
      \<lparr>mpp := Some True, notSmufl := Some (Bool True)\<rparr>),
    (''stemStructural'', (uc_only ([0xE210]))
      \<lparr>mpp := Some False, notSmufl := Some (Bool True)\<rparr>),
    (''stemStructuralPartial'', (uc_only ([0xE210]))
      \<lparr>mpp := Some False, notSmufl := Some (Bool True)\<rparr>),
    (''stemStructuralBridgeLeft'', (uc_only ([0x2282]))
      \<lparr>mpp := Some False, notSmufl := Some (Bool True)\<rparr>),
    (''stemStructuralBridgeRight'', (uc_only ([0x2283]))
      \<lparr>mpp := Some False, notSmufl := Some (Bool True)\<rparr>),
    (''flagStructuralUp'', (uc_only ([0xE1D7]))
      \<lparr>mpp := Some False, notSmufl := Some (Bool True)\<rparr>),
    (''flagStructuralDown'', (uc_only ([0xE1D8]))
      \<lparr>mpp := Some False, notSmufl := Some (Bool True)\<rparr>),
    (''slurStructuralDown'', (uc_only ([0xE4BB]))
      \<lparr>mpp := Some False, notSmufl := Some (Bool True)\<rparr>),
    (''slurStructuralUp'', (uc_only ([0xE4BA]))
      \<lparr>mpp := Some False, notSmufl := Some (Bool True)\<rparr>),
    (''beamStructural'', (uc_only ([0xE1F0, 0xE1F2]))
      \<lparr>mpp := Some False, notSmufl := Some (Bool True)\<rparr>),
    (''beamStructuralPartialLeft'', (uc_only ([0xE1F0, 0xE1F7]))
      \<lparr>mpp := Some False, notSmufl := Some (Bool True)\<rparr>),
    (''beamStructuralPartialRight'', (uc_only ([0xE1F2]))
      \<lparr>mpp := Some False, notSmufl := Some (Bool True)\<rparr>),
    (''beamStructuralPartialMiddle'', (uc_only ([0xE1F2, 0xE1F7]))
      \<lparr>mpp := Some False, notSmufl := Some (Bool True)\<rparr>),
    (''beamStructuralBridgeUp'', (uc_only ([0x2229]))
      \<lparr>mpp := Some False, notSmufl := Some (Bool True)\<rparr>),
    (''beamStructuralBridgeDown'', (uc_only ([0x222A]))
      \<lparr>mpp := Some False, notSmufl := Some (Bool True)\<rparr>),
    (''beamStructuralUnfoldingDown'', (uc_only ([0x2571]))
      \<lparr>mpp := Some False, notSmufl := Some (Bool True)\<rparr>),
    (''beamStructuralUnfoldingUp'', (uc_only ([0x2572]))
      \<lparr>mpp := Some False, notSmufl := Some (Bool True)\<rparr>),
    (''voiceExchangeDown'', (uc_only ([0x2571]))
      \<lparr>mpp := Some False, notSmufl := Some (Bool True)\<rparr>),
    (''voiceExchangeUp'', (uc_only ([0x2572]))
      \<lparr>mpp := Some False, notSmufl := Some (Bool True)\<rparr>),
    (''parensImpliedLeft'', (uc_only (ascii ''(''))
      \<lparr>mpp := Some False, notSmufl := Some (Bool True)\<rparr>),
    (''parensImpliedRight'', (uc_only (ascii '')''))
      \<lparr>mpp := Some False, notSmufl := Some (Bool True)\<rparr>),
    (''noteheadImplied'', (uc_only (ascii ''('' @ [0xE0A4] @ ascii '')''))
      \<lparr>mpp := Some False, notSmufl := Some (Bool True)\<rparr>),
    (''noteheadOpenImplied'', (uc_only (ascii ''('' @ [0xE0A3] @ ascii '')''))
      \<lparr>mpp := Some False, notSmufl := Some (Bool True)\<rparr>),
    (''scaleDegreeMark'', (uc_only (ascii ''^''))
      \<lparr>mpp := Some False, notSmufl := Some (Bool True)\<rparr>),
    (''characterColonDotUpper'', (uc_only ([0x00B7]))
      \<lparr>mpp := Some False, notSmufl := Some (Bool True)\<rparr>),
    (''characterColonDotLower'', (uc_only ([0x00B7]))
      \<lparr>mpp := Some False, notSmufl := Some (Bool True)\<rparr>),
    (''characterExclamation'', (uc_only (ascii ''!''))
      \<lparr>mpp := Some False, notSmufl := Some (Bool True)\<rparr>),
    (''characterHyphen'', (uc_only ([0xE090]))
      \<lparr>mpp := Some False, notSmufl := Some (Bool True)\<rparr>),
    (''characterEqual'', (uc_only ([0xE08F]))
      \<lparr>mpp := Some False, notSmufl := Some (Bool True)\<rparr>),
    (''braceAnalytical'', (uc_only ([0x007B]))
      \<lparr>mpp := Some False, notSmufl := Some (Bool True)\<rparr>),
    (''barlineStructuralDotted'', (uc_only ([0x250A]))
      \<lparr>mpp := Some False, notSmufl := Some (Bool True)\<rparr>),
    (''barlineStructuralDottedPartial'', (uc_only ([0x2502]))
      \<lparr>mpp := Some False, notSmufl := Some (Bool True)\<rparr>),
    (''keyAnalysis'', (uc_only (ascii ''Gm:''))
      \<lparr>mpp := Some False, notSmufl := Some (Bool True)\<rparr>),
    (''analyticalI'', (uc_only ([0x2160]))
      \<lparr>mpp := Some False, notSmufl := Some (Bool True)\<rparr>),
    (''analyticalII'', (uc_only ([0x2161]))
      \<lparr>mpp := Some False, notSmufl := Some (Bool True)\<rparr>),
    (''analyticalIII'', (uc_only ([0x2162]))
      \<lparr>mpp := Some False, notSmufl := Some (Bool True)\<rparr>),
    (''analyticalIV'', (uc_only ([0x2163]))
      \<lparr>mpp := Some False, notSmufl := Some (Bool True)\<rparr>),
    (''analyticalV'', (uc_only ([0x2164]))
      \<lparr>mpp := Some False, notSmufl := Some (Bool True)\<rparr>),
    (''analyticalVI'', (uc_only ([0x2165]))
      \<lparr>mpp := Some False, notSmufl := Some (Bool True)\<rparr>),
    (''analyticalVII'', (uc_only ([0x2166]))
      \<lparr>mpp := Some False, notSmufl := Some (Bool True)\<rparr>),
    (''numeralRomanI'', (uc_only ([0x2160]))
      \<lparr>mpp := Some False, notSmufl := Some (Bool True)\<rparr>),
    (''numeralRomanII'', (uc_only ([0x2161]))
      \<lparr>mpp := Some False, notSmufl := Some (Bool True)\<rparr>),
    (''numeralRomanIII'', (uc_only ([0x2162]))
      \<lparr>mpp := Some False, notSmufl := Some (Bool True)\<rparr>),
    (''numeralRomanIV'', (uc_only ([0x2163]))
      \<lparr>mpp := Some False, notSmufl := Some (Bool True)\<rparr>),
    (''numeralRomanV'', (uc_only ([0x2164]))
      \<lparr>mpp := Some False, notSmufl := Some (Bool True)\<rparr>),
    (''numeralRomanVI'', (uc_only ([0x2165]))
      \<lparr>mpp := Some False, notSmufl := Some (Bool True)\<rparr>),
    (''numeralRomanVII'', (uc_only ([0x2166]))
      \<lparr>mpp := Some False, notSmufl := Some (Bool True)\<rparr>),
    (''secondaryHarmonyArrowRight'', (uc_only ([0x21BA]))
      \<lparr>mpp := Some False, notSmufl := Some (Bool True)\<rparr>),
    (''secondaryHarmonyArrowLeft'', (uc_only ([0x21BB]))
      \<lparr>mpp := Some False, notSmufl := Some (Bool True)\<rparr>),
    (''circleEmphasis'', (uc_only ([0x25EF]))
      \<lparr>mpp := Some False, notSmufl := Some (Bool True)\<rparr>),
    (''circleMeasureNumber'', (uc_only ([0x25CB]))
      \<lparr>mpp := Some False, notSmufl := Some (Bool True)\<rparr>)
  ]"

subsection \<open>The derivation\<close>

text \<open>
  \<^verbatim>\<open>parseMungClassDefinition(className, def)\<close>. \<^verbatim>\<open>!x\<close> is the negation of ToBoolean,
  \<^verbatim>\<open>!!x\<close> its double negation; \<^verbatim>\<open>def.transcribable === true\<close> holds for the value
  \<^verbatim>\<open>true\<close> only, and \<^verbatim>\<open>!== undefined\<close> for every present value.
\<close>

definition parseMungClassDefinition :: "string \<Rightarrow> MungClassDefinition \<Rightarrow> MungClass" where
  "parseMungClassDefinition name def =
     (let isSmufl' = \<not> truthy (notSmufl def);
          isContainer' = (\<not> \<not> truthy_boolean (container def));
          justifiedSmuflDivergence' =
            (if isSmufl' then None
             else Some (isContainer'
                        \<or> transcribable def = Some True
                        \<or> otherSmuflDivergenceJustification def \<noteq> None))
      in \<lparr>className = name,
          unicode = uc def,
          isSmufl = isSmufl',
          MungClass.smuflEquivalents = smuflEquivalents def,
          isMuscimaPP20 = (\<not> \<not> truthy_boolean (mpp def)),
          isContainer = isContainer',
          MungClass.otherSmuflDivergenceJustification = otherSmuflDivergenceJustification def,
          justifiedSmuflDivergence = justifiedSmuflDivergence',
          isTranscribable = (\<not> \<not> truthy_boolean (transcribable def))\<rparr>)"

subsection \<open>The exported views\<close>

text \<open>
  \<^verbatim>\<open>Object.keys(defs).sort().map((key) => parseMungClassDefinition(key, defs[key]))\<close>.
  The language fixes what \<^verbatim>\<open>sort()\<close> returns (the elements of the array in ascending
  order) and leaves the algorithm to the engine, so the sort is a parameter here;
  the module is the instance with \<^const>\<open>sort\<close>. Reading a property of
  \<^verbatim>\<open>undefined\<close> throws a TypeError: were \<^verbatim>\<open>defs[key]\<close> missing for some key, the
  whole construction would fail, which is the result \<^term>\<open>None\<close>.
\<close>

definition mungClassesWith ::
  "(string list \<Rightarrow> string list) \<Rightarrow> (string \<times> MungClassDefinition) list \<Rightarrow> MungClass list option" where
  "mungClassesWith sort_impl defs =
     those (map (\<lambda>key. map_option (parseMungClassDefinition key) (object_get defs key))
                (sort_impl (object_keys defs)))"

text \<open>What the language promises of \<^verbatim>\<open>keys.sort()\<close>: a rearrangement in ascending order.\<close>

definition sort_contract :: "(string list \<Rightarrow> string list) \<Rightarrow> string list \<Rightarrow> bool" where
  "sort_contract sort_impl keys \<longleftrightarrow> mset (sort_impl keys) = mset keys \<and> sorted (sort_impl keys)"

definition mungClasses :: "(string \<times> MungClassDefinition) list \<Rightarrow> MungClass list option" where
  "mungClasses defs = mungClassesWith sort defs"

text \<open>
  \<^verbatim>\<open>MUNG_CLASSES\<close>: the construction on the table. It succeeds
  (\<open>mungClasses_DEFINITIONS\<close> below), so \<^const>\<open>the\<close> is applied to a \<^term>\<open>Some\<close>.
\<close>

definition MUNG_CLASSES :: "MungClass list" where
  "MUNG_CLASSES = the (mungClasses DEFINITIONS)"

definition MUNG_CLASS_NAMES :: "string list" where
  "MUNG_CLASS_NAMES = map (\<lambda>mc. className mc) MUNG_CLASSES"

text \<open>
  \<^verbatim>\<open>MUNG_CLASSES.reduce((dict, mc) => { dict[mc.className] = mc; return dict }, {})\<close>:
  a left fold that stores each descriptor under its name, from the empty object. The map
  holds the own properties of the resulting object. (An assignment to the name
  \<^verbatim>\<open>__proto__\<close> would set the prototype instead of a property; no class has that name,
  see \<open>DEFINITIONS_no_proto_key\<close>.)
\<close>

definition classesByName :: "MungClass list \<Rightarrow> (string \<rightharpoonup> MungClass)" where
  "classesByName classes = foldl (\<lambda>dict mc. dict(className mc \<mapsto> mc)) Map.empty classes"

definition MUNG_CLASSES_BY_NAME :: "string \<rightharpoonup> MungClass" where
  "MUNG_CLASSES_BY_NAME = classesByName MUNG_CLASSES"

text \<open>
  The lookup \<^verbatim>\<open>MUNG_CLASSES_BY_NAME[name]\<close> (the spec's \<^verbatim>\<open>byName\<close>). The dictionary
  starts as \<^verbatim>\<open>{}\<close>, an ordinary object whose prototype is \<^verbatim>\<open>Object.prototype\<close>, and
  a property read that finds no own property continues in the prototype. So a name that
  is not stored reads as \<^verbatim>\<open>undefined\<close> only if \<^verbatim>\<open>Object.prototype\<close> has no property
  of that name either; otherwise the read returns that inherited member. The names are
  those that ECMAScript gives \<^verbatim>\<open>Object.prototype\<close>. A property read on an object does
  not throw, so every outcome is one of the three values.
\<close>

definition Object_prototype_properties :: "string list" where
  "Object_prototype_properties =
     [''constructor'', ''hasOwnProperty'', ''isPrototypeOf'', ''propertyIsEnumerable'',
      ''toLocaleString'', ''toString'', ''valueOf'', ''__proto__'',
      ''__defineGetter__'', ''__defineSetter__'', ''__lookupGetter__'', ''__lookupSetter__'']"

datatype lookup_result = Undefined | Class MungClass | InheritedFromObjectPrototype string

definition property_read :: "(string \<rightharpoonup> MungClass) \<Rightarrow> string \<Rightarrow> lookup_result" where
  "property_read dict name =
     (case dict name of
        Some mc \<Rightarrow> Class mc
      | None \<Rightarrow> if name \<in> set Object_prototype_properties
                then InheritedFromObjectPrototype name else Undefined)"

definition byName :: "string \<Rightarrow> lookup_result" where
  "byName name = property_read MUNG_CLASSES_BY_NAME name"

subsection \<open>The construction on a heap of objects\<close>

text \<open>
  The definitions above compute with values. A JavaScript object or array is a mutable
  cell reached through a reference, and \<^verbatim>\<open>Array.prototype.sort\<close> changes its array in
  place; to state what the construction writes and what it leaves alone, this section
  runs it on an explicit heap. An address is an index into the list of cells, and
  allocation appends a cell: \<^verbatim>\<open>Object.keys\<close>, \<^verbatim>\<open>map\<close> and each object literal
  return a fresh object. (The order in which fresh objects get their addresses is not
  observable; the array that \<^verbatim>\<open>map\<close> returns is allocated here once its elements are
  known.) Strings and booleans are values.

  A definition object in the heap holds, under \<^verbatim>\<open>smuflEquivalents\<close>, a reference to
  an array of strings, and the descriptor that \<^verbatim>\<open>parseMungClassDefinition\<close> returns
  holds the same reference: the array is shared, not copied.
\<close>

type_synonym addr = nat

record DefinitionObject =
  def_uc :: glyph_string
  def_mpp :: "bool option"
  def_notSmufl :: "bool_or_string option"
  def_smuflEquivalents :: "addr option"
  def_container :: "bool option"
  def_otherSmuflDivergenceJustification :: "string option"
  def_transcribable :: "bool option"

record ClassObject =
  obj_className :: string
  obj_unicode :: glyph_string
  obj_isSmufl :: bool
  obj_smuflEquivalents :: "addr option"
  obj_isMuscimaPP20 :: bool
  obj_isContainer :: bool
  obj_otherSmuflDivergenceJustification :: "string option"
  obj_justifiedSmuflDivergence :: "bool option"
  obj_isTranscribable :: bool

datatype cell =
    StringArray "string list"
  | Definition DefinitionObject
  | Table "(string \<times> addr) list"
  | Descriptor ClassObject
  | DescriptorArray "addr list"

type_synonym heap = "cell list"

definition heap_read :: "heap \<Rightarrow> addr \<Rightarrow> cell option" where
  "heap_read h a = (if a < length h then Some (h ! a) else None)"

definition alloc :: "cell \<Rightarrow> heap \<Rightarrow> addr \<times> heap" where
  "alloc c h = (length h, h @ [c])"

text \<open>
  The steps of the construction. Each returns the reference it yields and the heap
  after it, or \<^term>\<open>None\<close> where JavaScript throws a TypeError (a read of a property
  of \<^verbatim>\<open>undefined\<close>) or where the reference does not hold an object of the expected
  kind.

  \<^verbatim>\<open>Object.keys(table)\<close>: a fresh array of the property names.
\<close>

definition Object_keys_heap :: "addr \<Rightarrow> heap \<Rightarrow> (addr \<times> heap) option" where
  "Object_keys_heap t h =
     (case heap_read h t of
        Some (Table props) \<Rightarrow> Some (alloc (StringArray (object_keys props)) h)
      | _ \<Rightarrow> None)"

text \<open>\<^verbatim>\<open>keys.sort()\<close>: sorts the array in place and returns the same reference.\<close>

definition sort_in_place :: "addr \<Rightarrow> heap \<Rightarrow> (addr \<times> heap) option" where
  "sort_in_place a h =
     (case heap_read h a of
        Some (StringArray keys) \<Rightarrow> Some (a, h[a := StringArray (sort keys)])
      | _ \<Rightarrow> None)"

text \<open>
  \<^verbatim>\<open>parseMungClassDefinition(className, def)\<close> on references: the object literal it
  returns, computed from the fields of the definition object, and its allocation.
\<close>

definition descriptor_of :: "string \<Rightarrow> DefinitionObject \<Rightarrow> ClassObject" where
  "descriptor_of name def =
     (let isSmufl' = \<not> truthy (def_notSmufl def);
          isContainer' = (\<not> \<not> truthy_boolean (def_container def));
          justifiedSmuflDivergence' =
            (if isSmufl' then None
             else Some (isContainer'
                        \<or> def_transcribable def = Some True
                        \<or> def_otherSmuflDivergenceJustification def \<noteq> None))
      in \<lparr>obj_className = name,
          obj_unicode = def_uc def,
          obj_isSmufl = isSmufl',
          obj_smuflEquivalents = def_smuflEquivalents def,
          obj_isMuscimaPP20 = (\<not> \<not> truthy_boolean (def_mpp def)),
          obj_isContainer = isContainer',
          obj_otherSmuflDivergenceJustification = def_otherSmuflDivergenceJustification def,
          obj_justifiedSmuflDivergence = justifiedSmuflDivergence',
          obj_isTranscribable = (\<not> \<not> truthy_boolean (def_transcribable def))\<rparr>)"

definition parseMungClassDefinition_heap :: "string \<Rightarrow> addr \<Rightarrow> heap \<Rightarrow> (addr \<times> heap) option" where
  "parseMungClassDefinition_heap name d h =
     (case heap_read h d of
        Some (Definition def) \<Rightarrow> Some (alloc (Descriptor (descriptor_of name def)) h)
      | _ \<Rightarrow> None)"

text \<open>
  \<^verbatim>\<open>keys.map((key) => parseMungClassDefinition(key, table[key]))\<close>: for each key in
  turn, the read \<^verbatim>\<open>table[key]\<close> on the heap as it is then, and the call.
\<close>

fun map_keys :: "addr \<Rightarrow> string list \<Rightarrow> heap \<Rightarrow> (addr list \<times> heap) option" where
  "map_keys t [] h = Some ([], h)"
| "map_keys t (key # keys) h =
     (case heap_read h t of
        Some (Table props) \<Rightarrow>
          (case object_get props key of
             None \<Rightarrow> None
           | Some d \<Rightarrow>
               (case parseMungClassDefinition_heap key d h of
                  None \<Rightarrow> None
                | Some (c, h') \<Rightarrow>
                    (case map_keys t keys h' of
                       None \<Rightarrow> None
                     | Some (cs, h'') \<Rightarrow> Some (c # cs, h''))))
      | _ \<Rightarrow> None)"

text \<open>\<^verbatim>\<open>Object.keys(table).sort().map(...)\<close> for the table at reference \<open>t\<close>.\<close>

definition mungClasses_heap :: "addr \<Rightarrow> heap \<Rightarrow> (addr \<times> heap) option" where
  "mungClasses_heap t h =
     (case Object_keys_heap t h of
        None \<Rightarrow> None
      | Some (a, h1) \<Rightarrow>
          (case sort_in_place a h1 of
             None \<Rightarrow> None
           | Some (a', h2) \<Rightarrow>
               (case heap_read h2 a' of
                  Some (StringArray keys) \<Rightarrow>
                    (case map_keys t keys h2 of
                       None \<Rightarrow> None
                     | Some (cs, h3) \<Rightarrow> Some (alloc (DescriptorArray cs) h3))
                | _ \<Rightarrow> None)))"

text \<open>
  The values that references stand for: the raw definition behind a definition
  object, the table behind a table object, the descriptor behind a descriptor object
  and the list of descriptors behind an array of them, each read from a given heap
  (\<^term>\<open>None\<close> if a reference dangles or holds another kind of object).
\<close>

definition equivalents_value :: "heap \<Rightarrow> addr option \<Rightarrow> string list option option" where
  "equivalents_value h r =
     (case r of
        None \<Rightarrow> Some None
      | Some a \<Rightarrow> (case heap_read h a of Some (StringArray es) \<Rightarrow> Some (Some es) | _ \<Rightarrow> None))"

definition definition_value :: "heap \<Rightarrow> addr \<Rightarrow> MungClassDefinition option" where
  "definition_value h d =
     (case heap_read h d of
        Some (Definition def) \<Rightarrow>
          map_option
            (\<lambda>es. \<lparr>uc = def_uc def, mpp = def_mpp def, notSmufl = def_notSmufl def,
                   smuflEquivalents = es, container = def_container def,
                   otherSmuflDivergenceJustification = def_otherSmuflDivergenceJustification def,
                   transcribable = def_transcribable def\<rparr>)
            (equivalents_value h (def_smuflEquivalents def))
      | _ \<Rightarrow> None)"

definition table_value :: "heap \<Rightarrow> addr \<Rightarrow> (string \<times> MungClassDefinition) list option" where
  "table_value h t =
     (case heap_read h t of
        Some (Table props) \<Rightarrow>
          those (map (\<lambda>(k, d). map_option (Pair k) (definition_value h d)) props)
      | _ \<Rightarrow> None)"

definition descriptor_value :: "heap \<Rightarrow> addr \<Rightarrow> MungClass option" where
  "descriptor_value h c =
     (case heap_read h c of
        Some (Descriptor obj) \<Rightarrow>
          map_option
            (\<lambda>es. \<lparr>className = obj_className obj, unicode = obj_unicode obj,
                   isSmufl = obj_isSmufl obj, MungClass.smuflEquivalents = es,
                   isMuscimaPP20 = obj_isMuscimaPP20 obj, isContainer = obj_isContainer obj,
                   MungClass.otherSmuflDivergenceJustification =
                     obj_otherSmuflDivergenceJustification obj,
                   justifiedSmuflDivergence = obj_justifiedSmuflDivergence obj,
                   isTranscribable = obj_isTranscribable obj\<rparr>)
            (equivalents_value h (obj_smuflEquivalents obj))
      | _ \<Rightarrow> None)"

definition classes_value :: "heap \<Rightarrow> addr \<Rightarrow> MungClass list option" where
  "classes_value h r =
     (case heap_read h r of
        Some (DescriptorArray cs) \<Rightarrow> those (map (descriptor_value h) cs)
      | _ \<Rightarrow> None)"

text \<open>
  The evaluation of an object literal like that of \<^verbatim>\<open>DEFINITIONS\<close>: for each entry
  in turn a fresh array for \<^verbatim>\<open>smuflEquivalents\<close>, if the entry has one, and a fresh
  definition object; then the table object that refers to them.
\<close>

definition allocate_definition :: "MungClassDefinition \<Rightarrow> heap \<Rightarrow> addr \<times> heap" where
  "allocate_definition def h =
     (case smuflEquivalents def of
        None \<Rightarrow>
          alloc (Definition
            \<lparr>def_uc = uc def, def_mpp = mpp def, def_notSmufl = notSmufl def,
             def_smuflEquivalents = None, def_container = container def,
             def_otherSmuflDivergenceJustification = otherSmuflDivergenceJustification def,
             def_transcribable = transcribable def\<rparr>) h
      | Some es \<Rightarrow>
          (case alloc (StringArray es) h of
             (a, h') \<Rightarrow>
               alloc (Definition
                 \<lparr>def_uc = uc def, def_mpp = mpp def, def_notSmufl = notSmufl def,
                  def_smuflEquivalents = Some a, def_container = container def,
                  def_otherSmuflDivergenceJustification = otherSmuflDivergenceJustification def,
                  def_transcribable = transcribable def\<rparr>) h'))"

fun allocate_entries ::
  "(string \<times> MungClassDefinition) list \<Rightarrow> heap \<Rightarrow> (string \<times> addr) list \<times> heap" where
  "allocate_entries [] h = ([], h)"
| "allocate_entries ((k, def) # defs) h =
     (case allocate_definition def h of
        (d, h') \<Rightarrow>
          (case allocate_entries defs h' of
             (props, h'') \<Rightarrow> ((k, d) # props, h'')))"

definition allocate_table :: "(string \<times> MungClassDefinition) list \<Rightarrow> heap \<Rightarrow> addr \<times> heap" where
  "allocate_table defs h =
     (case allocate_entries defs h of (props, h') \<Rightarrow> alloc (Table props) h')"

section \<open>Properties\<close>

subsection \<open>Object literals and the construction\<close>

text \<open>
  \<^verbatim>\<open>Object.keys\<close> lists every property name of the literal exactly once, and a
  property read succeeds exactly on those names, with a value that the literal gives
  the name.
\<close>

lemma set_object_keys: "set (object_keys props) = fst ` set props"
  by (induction props rule: object_keys.induct) auto

lemma distinct_object_keys: "distinct (object_keys props)"
  by (induction props rule: object_keys.induct) simp_all

lemma object_get_None_iff: "object_get props key = None \<longleftrightarrow> key \<notin> fst ` set props"
  by (induction props key rule: object_get.induct) (auto split: option.splits)

lemma object_get_Some_mem: "object_get props key = Some v \<Longrightarrow> (key, v) \<in> set props"
  by (induction props key rule: object_get.induct) (auto split: option.splits if_splits)

lemma object_get_key: "key \<in> set (object_keys props) \<Longrightarrow> \<exists>v. object_get props key = Some v"
  using object_get_None_iff [of props key] by (auto simp: set_object_keys)

lemma object_getI:
  "(key, v) \<in> set props \<Longrightarrow> list_all (\<lambda>(k', v'). k' = key \<longrightarrow> v' = v) props
     \<Longrightarrow> object_get props key = Some v"
proof -
  assume m: "(key, v) \<in> set props" and u: "list_all (\<lambda>(k', v'). k' = key \<longrightarrow> v' = v) props"
  from m have "key \<in> fst ` set props" by force
  then obtain w where w: "object_get props key = Some w"
    using object_get_None_iff [of props key] by auto
  from object_get_Some_mem [OF w] u have "w = v"
    by (auto simp: list_all_iff)
  with w show ?thesis by simp
qed

lemma those_map_total:
  "(\<And>x. x \<in> set xs \<Longrightarrow> f x \<noteq> None) \<Longrightarrow> those (map f xs) = Some (map (\<lambda>x. the (f x)) xs)"
  by (induction xs) (auto split: option.splits)

lemma sort_contract_unique: "sort_contract sort_impl keys \<Longrightarrow> sort_impl keys = sort keys"
  unfolding sort_contract_def by (metis properties_for_sort)

lemma mungClassesWith_eq:
  assumes "sort_contract sort_impl (object_keys defs)"
  shows "mungClassesWith sort_impl defs =
    Some (map (\<lambda>key. parseMungClassDefinition key (the (object_get defs key))) (sort (object_keys defs)))"
proof -
  have "those (map (\<lambda>key. map_option (parseMungClassDefinition key) (object_get defs key)) (sort (object_keys defs)))
     = Some (map (\<lambda>key. the (map_option (parseMungClassDefinition key) (object_get defs key))) (sort (object_keys defs)))"
  proof (rule those_map_total)
    fix x assume "x \<in> set (sort (object_keys defs))"
    then have "x \<in> set (object_keys defs)" by simp
    from object_get_key [OF this]
    show "map_option (parseMungClassDefinition x) (object_get defs x) \<noteq> None" by auto
  qed
  moreover have "map (\<lambda>key. the (map_option (parseMungClassDefinition key) (object_get defs key))) (sort (object_keys defs))
    = map (\<lambda>key. parseMungClassDefinition key (the (object_get defs key))) (sort (object_keys defs))"
  proof (rule map_cong [OF refl])
    fix x assume "x \<in> set (sort (object_keys defs))"
    then have "x \<in> set (object_keys defs)" by simp
    from object_get_key [OF this]
    show "the (map_option (parseMungClassDefinition x) (object_get defs x))
       = parseMungClassDefinition x (the (object_get defs x))" by auto
  qed
  ultimately show ?thesis
    unfolding mungClassesWith_def sort_contract_unique [OF assms] by simp
qed

lemma sort_contract_sort: "sort_contract sort keys"
  by (simp add: sort_contract_def)

lemma mungClasses_DEFINITIONS: "mungClasses DEFINITIONS = Some MUNG_CLASSES"
  unfolding MUNG_CLASSES_def mungClasses_def
  by (simp add: mungClassesWith_eq [OF sort_contract_sort])

lemma MUNG_CLASSES_eq:
  "MUNG_CLASSES = map (\<lambda>key. parseMungClassDefinition key (the (object_get DEFINITIONS key)))
                     (sort (object_keys DEFINITIONS))"
  unfolding MUNG_CLASSES_def mungClasses_def
  by (simp add: mungClassesWith_eq [OF sort_contract_sort])

lemma className_parse [simp]: "className (parseMungClassDefinition name def) = name"
  by (simp add: parseMungClassDefinition_def Let_def)

lemma MUNG_CLASS_NAMES_eq: "MUNG_CLASS_NAMES = sort (object_keys DEFINITIONS)"
  unfolding MUNG_CLASS_NAMES_def MUNG_CLASSES_eq by (simp add: comp_def)

lemma MUNG_CLASSES_member:
  "mc \<in> set MUNG_CLASSES \<longleftrightarrow>
     (\<exists>key def. object_get DEFINITIONS key = Some def \<and> mc = parseMungClassDefinition key def)"
proof
  assume "mc \<in> set MUNG_CLASSES"
  then obtain key where k: "key \<in> set (object_keys DEFINITIONS)"
    and mc: "mc = parseMungClassDefinition key (the (object_get DEFINITIONS key))"
    unfolding MUNG_CLASSES_eq by auto
  from object_get_key [OF k] mc
  show "\<exists>key def. object_get DEFINITIONS key = Some def \<and> mc = parseMungClassDefinition key def"
    by fastforce
next
  assume "\<exists>key def. object_get DEFINITIONS key = Some def \<and> mc = parseMungClassDefinition key def"
  then obtain key def where g: "object_get DEFINITIONS key = Some def"
    and mc: "mc = parseMungClassDefinition key def" by blast
  from g have "key \<in> set (object_keys DEFINITIONS)"
    using object_get_None_iff [of DEFINITIONS key] by (simp add: set_object_keys)
  with g mc show "mc \<in> set MUNG_CLASSES"
    unfolding MUNG_CLASSES_eq by force
qed

lemma foldl_dict_notin:
  "name \<notin> className ` set classes \<Longrightarrow>
     foldl (\<lambda>dict mc. dict(className mc \<mapsto> mc)) dict0 classes name = dict0 name"
  by (induction classes arbitrary: dict0) auto

lemma foldl_dict_in:
  "distinct (map className classes) \<Longrightarrow> mc \<in> set classes \<Longrightarrow>
     foldl (\<lambda>dict mc. dict(className mc \<mapsto> mc)) dict0 classes (className mc) = Some mc"
proof (induction classes arbitrary: dict0)
  case Nil
  then show ?case by simp
next
  case (Cons c cs)
  show ?case
  proof (cases "mc \<in> set cs")
    case True
    with Cons show ?thesis by simp
  next
    case False
    with Cons.prems have eq: "mc = c" and fresh: "className c \<notin> className ` set cs" by auto
    have "foldl (\<lambda>dict mc. dict(className mc \<mapsto> mc)) dict0 (c # cs) (className c)
        = foldl (\<lambda>dict mc. dict(className mc \<mapsto> mc)) (dict0(className c \<mapsto> c)) cs (className c)"
      by (simp del: fun_upd_apply)
    also have "\<dots> = (dict0(className c \<mapsto> c)) (className c)"
      by (rule foldl_dict_notin [OF fresh])
    also have "\<dots> = Some c" by simp
    finally show ?thesis unfolding eq .
  qed
qed

lemma distinct_MUNG_CLASS_NAMES: "distinct MUNG_CLASS_NAMES"
  unfolding MUNG_CLASS_NAMES_eq by (simp add: distinct_object_keys)

lemma MUNG_CLASSES_BY_NAME_key:
  assumes "object_get DEFINITIONS key = Some def"
  shows "MUNG_CLASSES_BY_NAME key = Some (parseMungClassDefinition key def)"
proof -
  have m: "parseMungClassDefinition key def \<in> set MUNG_CLASSES"
    using assms MUNG_CLASSES_member by blast
  have d: "distinct (map className MUNG_CLASSES)"
    using distinct_MUNG_CLASS_NAMES by (simp add: MUNG_CLASS_NAMES_def)
  from foldl_dict_in [OF d m] show ?thesis
    by (simp add: MUNG_CLASSES_BY_NAME_def classesByName_def)
qed

lemma MUNG_CLASSES_BY_NAME_absent:
  assumes "key \<notin> set (object_keys DEFINITIONS)"
  shows "MUNG_CLASSES_BY_NAME key = None"
proof -
  have "set (map className MUNG_CLASSES) = set (object_keys DEFINITIONS)"
    using MUNG_CLASS_NAMES_eq by (simp add: MUNG_CLASS_NAMES_def)
  with assms have "key \<notin> className ` set MUNG_CLASSES" by simp
  from foldl_dict_notin [OF this] show ?thesis
    by (simp add: MUNG_CLASSES_BY_NAME_def classesByName_def)
qed

text \<open>
  The order in which \<^verbatim>\<open>Object.keys\<close> lists the names is immaterial: every list of
  the same names, each once, sorts to the same array.
\<close>

lemma sort_keys_any_order:
  "distinct keys \<Longrightarrow> set keys = set (object_keys props) \<Longrightarrow> sort keys = sort (object_keys props)"
proof -
  assume d: "distinct keys" and s: "set keys = set (object_keys props)"
  have "mset keys = mset (object_keys props)"
    using d s distinct_object_keys set_eq_iff_mset_eq_distinct by blast
  then show ?thesis
    by (metis properties_for_sort sorted_sort mset_sort)
qed

text \<open>
  The order of \<^typ>\<open>string\<close> used by \<^const>\<open>sort\<close> and \<^const>\<open>sorted\<close> is the
  lexicographic order of the character codes.
\<close>

lemma string_less_lexicographic:
  "(xs :: string) < ys \<longleftrightarrow> (xs, ys) \<in> lexord {(a, b). (of_char a :: nat) < of_char b}"
  by (simp add: list_less_def less_char_def)

subsection \<open>The lookup\<close>

lemma byName_key:
  "object_get DEFINITIONS key = Some def \<Longrightarrow> byName key = Class (parseMungClassDefinition key def)"
  by (simp add: byName_def property_read_def MUNG_CLASSES_BY_NAME_key)

lemma byName_not_key:
  "name \<notin> set (object_keys DEFINITIONS) \<Longrightarrow>
     byName name = (if name \<in> set Object_prototype_properties
                    then InheritedFromObjectPrototype name else Undefined)"
  by (simp add: byName_def property_read_def MUNG_CLASSES_BY_NAME_absent)

subsection \<open>Facts of the table\<close>

text \<open>
  Facts about all 378 entries are proved entry by entry: the rules below walk the list
  and leave one small goal for each entry.
\<close>

lemma list_all_ConsI: "P x \<Longrightarrow> list_all P xs \<Longrightarrow> list_all P (x # xs)"
  by simp

lemma list_all_NilI: "list_all P []"
  by simp

lemma mem_hd: "x \<in> set (x # xs)"
  by simp

lemma mem_tl: "x \<in> set xs \<Longrightarrow> x \<in> set (y # xs)"
  by simp

lemma key_hd: "k \<in> fst ` set ((k, v) # xs)"
  by simp

lemma key_tl: "k \<in> fst ` set xs \<Longrightarrow> k \<in> fst ` set (p # xs)"
  by simp

lemmas string_eq_simps = prod.case list.inject list.distinct char.inject simp_thms

lemma DEFINITIONS_length: "length DEFINITIONS = 378"
  unfolding DEFINITIONS_def by simp

lemma DEFINITIONS_notSmufl:
  "list_all (\<lambda>(k, d). notSmufl d = None \<or> notSmufl d = Some (Bool True)) DEFINITIONS"
  unfolding DEFINITIONS_def
  by (intro list_all_ConsI list_all_NilI; simp add: uc_only_def)

lemma DEFINITIONS_transcribable:
  "list_all (\<lambda>(k, d). transcribable d = Some True \<longrightarrow> notSmufl d = Some (Bool True)) DEFINITIONS"
  unfolding DEFINITIONS_def
  by (intro list_all_ConsI list_all_NilI; simp add: uc_only_def)

text \<open>Names that are not class names of the table.\<close>

lemma DEFINITIONS_absent_keys:
  "list_all (\<lambda>(k, d). k \<noteq> ''staff5Lines'' \<and> k \<noteq> ''doesNotExist'' \<and> k \<noteq> ''toString''
      \<and> k \<noteq> ''__proto__'') DEFINITIONS"
  unfolding DEFINITIONS_def
  by (intro list_all_ConsI list_all_NilI; simp only: string_eq_simps)

lemma DEFINITIONS_no_staff5Lines: "''staff5Lines'' \<notin> set (object_keys DEFINITIONS)"
  using DEFINITIONS_absent_keys by (auto simp: set_object_keys list_all_iff)

lemma DEFINITIONS_no_doesNotExist: "''doesNotExist'' \<notin> set (object_keys DEFINITIONS)"
  using DEFINITIONS_absent_keys by (auto simp: set_object_keys list_all_iff)

lemma DEFINITIONS_no_toString: "''toString'' \<notin> set (object_keys DEFINITIONS)"
  using DEFINITIONS_absent_keys by (auto simp: set_object_keys list_all_iff)

lemma DEFINITIONS_no_proto_key: "''__proto__'' \<notin> set (object_keys DEFINITIONS)"
  using DEFINITIONS_absent_keys by (auto simp: set_object_keys list_all_iff)

text \<open>Single entries, read with \<^verbatim>\<open>DEFINITIONS[key]\<close>.\<close>

lemma DEFINITIONS_unclassified:
  "object_get DEFINITIONS ''unclassified'' =
     Some ((uc_only (ascii ''?''))\<lparr>mpp := Some True, notSmufl := Some (Bool True)\<rparr>)"
  unfolding DEFINITIONS_def
  apply (rule object_getI)
   apply (intro mem_hd mem_tl)
  apply (intro list_all_ConsI list_all_NilI; simp only: string_eq_simps)
  done

lemma DEFINITIONS_staff:
  "object_get DEFINITIONS ''staff'' =
     Some ((uc_only [0xE01A, 0x2800])
             \<lparr>mpp := Some True, smuflEquivalents := Some [''staff5Lines'']\<rparr>)"
  unfolding DEFINITIONS_def
  apply (rule object_getI)
   apply (intro mem_hd mem_tl)
  apply (intro list_all_ConsI list_all_NilI; simp only: string_eq_simps)
  done

lemma DEFINITIONS_repeatText:
  "object_get DEFINITIONS ''repeatText'' =
     Some ((uc_only (ascii ''D.C.''))\<lparr>notSmufl := Some (Bool True), transcribable := Some True\<rparr>)"
  unfolding DEFINITIONS_def
  apply (rule object_getI)
   apply (intro mem_hd mem_tl)
  apply (intro list_all_ConsI list_all_NilI; simp only: string_eq_simps)
  done

lemma DEFINITIONS_noteheadBlack:
  "object_get DEFINITIONS ''noteheadBlack'' = Some (uc_only [0xE0A4])"
  unfolding DEFINITIONS_def
  apply (rule object_getI)
   apply (intro mem_hd mem_tl)
  apply (intro list_all_ConsI list_all_NilI; simp only: string_eq_simps)
  done

text \<open>
  The names listed under \<^verbatim>\<open>smuflEquivalents\<close> that are class names of the table, and
  the entries that list them: \<^verbatim>\<open>staff5Lines\<close>, listed by \<^verbatim>\<open>staff\<close>, is the one name
  that is not.
\<close>

lemma DEFINITIONS_resolved:
  "list_all (\<lambda>e. e \<in> fst ` set DEFINITIONS)
     [''brace'', ''bracket'', ''systemDivider'', ''barlineSingle'', ''repeatLeft'',
      ''repeatRight'', ''noteheadBlack'', ''noteheadBlackSmall'', ''accidentalDoubleSharp'',
      ''accidentalDoubleFlat'', ''articAccentAbove'', ''articAccentBelow'',
      ''articMarcatoAbove'', ''articMarcatoBelow'', ''articStaccatoAbove'',
      ''articStaccatoBelow'', ''articTenutoAbove'', ''articTenutoBelow'', ''breathMarkComma'',
      ''breathMarkTick'', ''breathMarkUpbow'', ''restDoubleWhole'', ''restWhole'',
      ''restHalf'', ''restQuarter'', ''rest8th'', ''rest16th'', ''rest32nd'', ''restHBar'',
      ''repeat1Bar'', ''ottava'', ''dynamicForte'', ''dynamicMezzo'', ''dynamicNiente'',
      ''dynamicPiano'', ''dynamicRinforzando'', ''dynamicSforzando'', ''dynamicZ'',
      ''arpeggiato'']"
  unfolding DEFINITIONS_def
  by (intro list_all_ConsI list_all_NilI key_hd key_tl)

lemma DEFINITIONS_equivalents_in:
  assumes "list_all (\<lambda>e. e \<in> K)
     [''brace'', ''bracket'', ''systemDivider'', ''barlineSingle'', ''repeatLeft'',
      ''repeatRight'', ''noteheadBlack'', ''noteheadBlackSmall'', ''accidentalDoubleSharp'',
      ''accidentalDoubleFlat'', ''articAccentAbove'', ''articAccentBelow'',
      ''articMarcatoAbove'', ''articMarcatoBelow'', ''articStaccatoAbove'',
      ''articStaccatoBelow'', ''articTenutoAbove'', ''articTenutoBelow'', ''breathMarkComma'',
      ''breathMarkTick'', ''breathMarkUpbow'', ''restDoubleWhole'', ''restWhole'',
      ''restHalf'', ''restQuarter'', ''rest8th'', ''rest16th'', ''rest32nd'', ''restHBar'',
      ''repeat1Bar'', ''ottava'', ''dynamicForte'', ''dynamicMezzo'', ''dynamicNiente'',
      ''dynamicPiano'', ''dynamicRinforzando'', ''dynamicSforzando'', ''dynamicZ'',
      ''arpeggiato'']"
  shows "list_all (\<lambda>(k, d). \<forall>es. smuflEquivalents d = Some es \<longrightarrow>
            (\<forall>e \<in> set es. e \<in> K \<or> (k = ''staff'' \<and> e = ''staff5Lines''))) DEFINITIONS"
  unfolding DEFINITIONS_def
  by (intro list_all_ConsI list_all_NilI; simp add: uc_only_def assms [simplified])

lemma DEFINITIONS_equivalents:
  "list_all (\<lambda>(k, d). \<forall>es. smuflEquivalents d = Some es \<longrightarrow>
      (\<forall>e \<in> set es. e \<in> fst ` set DEFINITIONS \<or> (k = ''staff'' \<and> e = ''staff5Lines'')))
     DEFINITIONS"
  by (rule DEFINITIONS_equivalents_in [OF DEFINITIONS_resolved])

subsection \<open>The construction on the heap\<close>

text \<open>Reads below the end of a heap are not affected by allocation.\<close>

lemma heap_read_Some_lt: "heap_read h a = Some c \<Longrightarrow> a < length h"
  by (simp add: heap_read_def split: if_splits)

lemma heap_read_append: "a < length h \<Longrightarrow> heap_read (h @ ext) a = heap_read h a"
  by (simp add: heap_read_def nth_append)

lemma heap_read_append_Some: "heap_read h a = Some c \<Longrightarrow> heap_read (h @ ext) a = Some c"
  using heap_read_append [OF heap_read_Some_lt] by metis

lemma heap_read_fresh: "heap_read (h @ [c]) (length h) = Some c"
  by (simp add: heap_read_def)

lemma those_map_Some_iff:
  "those (map f xs) = Some ys \<longleftrightarrow> list_all2 (\<lambda>x y. f x = Some y) xs ys"
proof (induction xs arbitrary: ys)
  case Nil
  then show ?case by auto
next
  case (Cons x xs)
  then show ?case
    by (cases ys) (auto split: option.splits)
qed

lemma those_map_mono:
  assumes "those (map f xs) = Some ys"
    and "\<And>x y. x \<in> set xs \<Longrightarrow> f x = Some y \<Longrightarrow> g x = Some y"
  shows "those (map g xs) = Some ys"
proof -
  from assms(1) have "list_all2 (\<lambda>x y. f x = Some y) xs ys"
    by (simp add: those_map_Some_iff)
  then have "list_all2 (\<lambda>x y. g x = Some y) xs ys"
    by (rule list.rel_mono_strong) (rule assms(2))
  then show ?thesis
    by (simp add: those_map_Some_iff)
qed

text \<open>The value behind a reference stays the same when the heap grows.\<close>

lemma equivalents_value_append:
  "equivalents_value h r = Some v \<Longrightarrow> equivalents_value (h @ ext) r = Some v"
  by (auto simp: equivalents_value_def heap_read_append_Some
      split: option.splits cell.splits)

lemma definition_value_append:
  "definition_value h d = Some v \<Longrightarrow> definition_value (h @ ext) d = Some v"
  by (auto simp: definition_value_def heap_read_append_Some equivalents_value_append
      split: option.splits cell.splits)

lemma descriptor_value_append:
  "descriptor_value h c = Some v \<Longrightarrow> descriptor_value (h @ ext) c = Some v"
  by (auto simp: descriptor_value_def heap_read_append_Some equivalents_value_append
      split: option.splits cell.splits)

lemma table_value_append:
  assumes "table_value h t = Some defs"
  shows "table_value (h @ ext) t = Some defs"
proof -
  from assms obtain props where t: "heap_read h t = Some (Table props)"
    and v: "those (map (\<lambda>(k, d). map_option (Pair k) (definition_value h d)) props) = Some defs"
    by (auto simp: table_value_def split: option.splits cell.splits)
  have "those (map (\<lambda>(k, d). map_option (Pair k) (definition_value (h @ ext) d)) props) = Some defs"
    by (rule those_map_mono [OF v]) (auto simp: definition_value_append)
  with heap_read_append_Some [OF t] show ?thesis
    by (simp add: table_value_def)
qed

lemma classes_value_append:
  assumes "classes_value h r = Some classes"
  shows "classes_value (h @ ext) r = Some classes"
proof -
  from assms obtain cs where r: "heap_read h r = Some (DescriptorArray cs)"
    and v: "those (map (descriptor_value h) cs) = Some classes"
    by (auto simp: classes_value_def split: option.splits cell.splits)
  have "those (map (descriptor_value (h @ ext)) cs) = Some classes"
    by (rule those_map_mono [OF v]) (simp add: descriptor_value_append)
  with heap_read_append_Some [OF r] show ?thesis
    by (simp add: classes_value_def)
qed

text \<open>
  A table object and the table it stands for have the same property names, and a
  property of the object refers to the definition object of the property's value.
\<close>

lemma table_value_props:
  assumes "table_value h t = Some defs"
  obtains props where "heap_read h t = Some (Table props)"
    and "list_all2 (\<lambda>(k, d) (k', v). k' = k \<and> definition_value h d = Some v) props defs"
proof -
  from assms obtain props where t: "heap_read h t = Some (Table props)"
    and v: "those (map (\<lambda>(k, d). map_option (Pair k) (definition_value h d)) props) = Some defs"
    by (auto simp: table_value_def split: option.splits cell.splits)
  from v have "list_all2 (\<lambda>p q. (case p of (k, d) \<Rightarrow> map_option (Pair k) (definition_value h d)) = Some q)
                 props defs"
    by (simp add: those_map_Some_iff)
  then have "list_all2 (\<lambda>(k, d) (k', v). k' = k \<and> definition_value h d = Some v) props defs"
    by (rule list_all2_mono) auto
  with t that show ?thesis by blast
qed

lemma object_keys_related:
  "list_all2 (\<lambda>(k, d) (k', v). k' = k \<and> R d v) props defs \<Longrightarrow> object_keys props = object_keys defs"
  by (induction props defs rule: list_all2_induct) auto

lemma object_get_related:
  assumes "list_all2 (\<lambda>(k, d) (k', v). k' = k \<and> R d v) props defs"
  shows "rel_option R (object_get props key) (object_get defs key)"
  using assms
proof (induction props defs rule: list_all2_induct)
  case Nil
  then show ?case by simp
next
  case (Cons p ps q qs)
  then show ?case
    by (cases p, cases q, cases "object_get ps key"; cases "object_get qs key") auto
qed

text \<open>One call of \<^verbatim>\<open>parseMungClassDefinition\<close>: a fresh descriptor with the derived value.\<close>

lemma descriptor_of_value:
  assumes "heap_read h d = Some (Definition def)" and "definition_value h d = Some v"
  shows "descriptor_value (h @ [Descriptor (descriptor_of name def)]) (length h)
           = Some (parseMungClassDefinition name v)"
proof -
  from assms obtain es where e: "equivalents_value h (def_smuflEquivalents def) = Some es"
    and v: "v = \<lparr>uc = def_uc def, mpp = def_mpp def, notSmufl = def_notSmufl def,
                 smuflEquivalents = es, container = def_container def,
                 otherSmuflDivergenceJustification = def_otherSmuflDivergenceJustification def,
                 transcribable = def_transcribable def\<rparr>"
    by (auto simp: definition_value_def)
  have "equivalents_value (h @ [Descriptor (descriptor_of name def)])
          (obj_smuflEquivalents (descriptor_of name def)) = Some es"
    using equivalents_value_append [OF e] by (simp add: descriptor_of_def Let_def)
  then show ?thesis
    unfolding v
    by (simp add: descriptor_value_def heap_read_fresh parseMungClassDefinition_def
        descriptor_of_def Let_def)
qed

lemma map_keys_value:
  assumes "table_value h t = Some defs" and "set keys \<subseteq> set (object_keys defs)"
  shows "\<exists>cs ext. map_keys t keys h = Some (cs, h @ ext)
           \<and> those (map (descriptor_value (h @ ext)) cs)
               = Some (map (\<lambda>key. parseMungClassDefinition key (the (object_get defs key))) keys)"
  using assms
proof (induction keys arbitrary: h)
  case Nil
  have "map_keys t [] h = Some ([], h @ [])" by simp
  then show ?case by fastforce
next
  case (Cons key keys)
  from Cons.prems(1) obtain props where t: "heap_read h t = Some (Table props)"
    and rel: "list_all2 (\<lambda>(k, d) (k', v). k' = k \<and> definition_value h d = Some v) props defs"
    by (rule table_value_props)
  from Cons.prems(2) have "key \<in> set (object_keys props)"
    using object_keys_related [OF rel] by simp
  from object_get_key [OF this] obtain d where d: "object_get props key = Some d" ..
  from object_get_related [OF rel, of key] d
  obtain v where gv: "object_get defs key = Some v" and dv: "definition_value h d = Some v"
    by (auto simp: option_rel_Some1)
  from dv obtain def where rd: "heap_read h d = Some (Definition def)"
    by (auto simp: definition_value_def split: option.splits cell.splits)
  let ?h' = "h @ [Descriptor (descriptor_of key def)]"
  have p: "parseMungClassDefinition_heap key d h = Some (length h, ?h')"
    using rd by (simp add: parseMungClassDefinition_heap_def alloc_def)
  have c: "descriptor_value ?h' (length h) = Some (parseMungClassDefinition key v)"
    by (rule descriptor_of_value [OF rd dv])
  from Cons.prems(2) have sub: "set keys \<subseteq> set (object_keys defs)" by simp
  from Cons.IH [OF table_value_append [OF Cons.prems(1)] sub]
  obtain cs ext where m: "map_keys t keys ?h' = Some (cs, ?h' @ ext)"
    and vs: "those (map (descriptor_value (?h' @ ext)) cs)
               = Some (map (\<lambda>key. parseMungClassDefinition key (the (object_get defs key))) keys)"
    by blast
  have run: "map_keys t (key # keys) h = Some (length h # cs, h @ (Descriptor (descriptor_of key def) # ext))"
    using t d p m by simp
  have "descriptor_value (?h' @ ext) (length h) = Some (parseMungClassDefinition key v)"
    by (rule descriptor_value_append [OF c])
  with vs gv
  have "those (map (descriptor_value (h @ (Descriptor (descriptor_of key def) # ext))) (length h # cs))
          = Some (map (\<lambda>key. parseMungClassDefinition key (the (object_get defs key))) (key # keys))"
    by simp
  with run show ?case by blast
qed

text \<open>
  One run: it succeeds, it only appends to the heap, and the array it returns stands
  for the list of descriptors that the construction on values gives for the table.
\<close>

lemma mungClasses_heap_run:
  assumes "table_value h t = Some defs"
  shows "\<exists>r ext. mungClasses_heap t h = Some (r, h @ ext)
           \<and> classes_value (h @ ext) r = mungClasses defs \<and> length h \<le> r"
proof -
  from assms obtain props where t: "heap_read h t = Some (Table props)"
    and rel: "list_all2 (\<lambda>(k, d) (k', v). k' = k \<and> definition_value h d = Some v) props defs"
    by (rule table_value_props)
  have keys: "object_keys props = object_keys defs"
    by (rule object_keys_related [OF rel])
  let ?h2 = "h @ [StringArray (sort (object_keys defs))]"
  have k: "Object_keys_heap t h = Some (length h, h @ [StringArray (object_keys defs)])"
    using t keys by (simp add: Object_keys_heap_def alloc_def)
  have s: "sort_in_place (length h) (h @ [StringArray (object_keys defs)]) = Some (length h, ?h2)"
    by (simp add: sort_in_place_def heap_read_fresh)
  have rk: "heap_read ?h2 (length h) = Some (StringArray (sort (object_keys defs)))"
    by (rule heap_read_fresh)
  have sub: "set (sort (object_keys defs)) \<subseteq> set (object_keys defs)" by simp
  from map_keys_value
    [OF table_value_append [OF assms, of "[StringArray (sort (object_keys defs))]"] sub]
  obtain cs ext where m: "map_keys t (sort (object_keys defs)) ?h2 = Some (cs, ?h2 @ ext)"
    and vs: "those (map (descriptor_value (?h2 @ ext)) cs)
               = Some (map (\<lambda>key. parseMungClassDefinition key (the (object_get defs key)))
                        (sort (object_keys defs)))"
    by blast
  let ?h4 = "(?h2 @ ext) @ [DescriptorArray cs]"
  have run: "mungClasses_heap t h = Some (length (?h2 @ ext), ?h4)"
    using k s rk m by (simp add: mungClasses_heap_def alloc_def)
  have "those (map (descriptor_value ?h4) cs)
          = Some (map (\<lambda>key. parseMungClassDefinition key (the (object_get defs key)))
                   (sort (object_keys defs)))"
    by (rule those_map_mono [OF vs]) (rule descriptor_value_append)
  then have "classes_value ?h4 (length (?h2 @ ext)) = mungClasses defs"
    using heap_read_fresh [of "?h2 @ ext" "DescriptorArray cs"]
    by (simp add: classes_value_def mungClasses_def mungClassesWith_eq [OF sort_contract_sort])
  moreover have "?h4 = h @ (StringArray (sort (object_keys defs)) # ext @ [DescriptorArray cs])"
    by simp
  moreover have "length h \<le> length (?h2 @ ext)" by simp
  ultimately show ?thesis using run by metis
qed

text \<open>
  The object literal of a table, once evaluated, stands for that table, and its
  evaluation only appends to the heap.
\<close>

lemma allocate_definition_value:
  assumes "allocate_definition def h = (d, h')"
  shows "(\<exists>ext. h' = h @ ext) \<and> definition_value h' d = Some def"
proof (cases "smuflEquivalents def")
  case None
  with assms show ?thesis
    by (auto simp: allocate_definition_def alloc_def definition_value_def heap_read_fresh
        equivalents_value_def)
next
  case (Some es)
  with assms have h': "h' = (h @ [StringArray es]) @ [Definition
        \<lparr>def_uc = uc def, def_mpp = mpp def, def_notSmufl = notSmufl def,
         def_smuflEquivalents = Some (length h), def_container = container def,
         def_otherSmuflDivergenceJustification = otherSmuflDivergenceJustification def,
         def_transcribable = transcribable def\<rparr>]"
    and d: "d = length (h @ [StringArray es])"
    by (auto simp: allocate_definition_def alloc_def)
  have "heap_read h' (length h) = Some (StringArray es)"
    unfolding h' by (rule heap_read_append_Some [OF heap_read_fresh])
  moreover have "heap_read h' d = Some (Definition
        \<lparr>def_uc = uc def, def_mpp = mpp def, def_notSmufl = notSmufl def,
         def_smuflEquivalents = Some (length h), def_container = container def,
         def_otherSmuflDivergenceJustification = otherSmuflDivergenceJustification def,
         def_transcribable = transcribable def\<rparr>)"
    unfolding h' d by (rule heap_read_fresh)
  ultimately have "definition_value h' d = Some def"
    using Some by (simp add: definition_value_def equivalents_value_def)
  moreover have "\<exists>ext. h' = h @ ext"
    unfolding h' by simp
  ultimately show ?thesis by simp
qed

lemma allocate_entries_value:
  "allocate_entries defs h = (props, h') \<Longrightarrow>
     (\<exists>ext. h' = h @ ext)
     \<and> list_all2 (\<lambda>(k, d) (k', v). k' = k \<and> definition_value h' d = Some v) props defs"
proof (induction defs arbitrary: h props h')
  case Nil
  then show ?case by simp
next
  case (Cons entry defs)
  obtain k def where entry: "entry = (k, def)" by (cases entry)
  obtain d h1 where a: "allocate_definition def h = (d, h1)"
    by (cases "allocate_definition def h")
  obtain props' h2 where b: "allocate_entries defs h1 = (props', h2)"
    by (cases "allocate_entries defs h1")
  from Cons.prems entry a b have props: "props = (k, d) # props'" and h': "h' = h2"
    by simp_all
  from allocate_definition_value [OF a] obtain e1 where h1: "h1 = h @ e1"
    and dv: "definition_value h1 d = Some def" by blast
  from Cons.IH [OF b] obtain e2 where h2: "h2 = h1 @ e2"
    and rel: "list_all2 (\<lambda>(k, d) (k', v). k' = k \<and> definition_value h2 d = Some v) props' defs"
    by blast
  from dv have "definition_value h2 d = Some def"
    unfolding h2 by (rule definition_value_append)
  with rel have "list_all2 (\<lambda>(k, d) (k', v). k' = k \<and> definition_value h' d = Some v) props (entry # defs)"
    unfolding props h' entry by simp
  moreover have "h' = h @ (e1 @ e2)"
    unfolding h' h2 h1 by simp
  ultimately show ?case by blast
qed

lemma allocate_table_value:
  assumes "allocate_table defs h = (t, h')"
  shows "table_value h' t = Some defs"
proof -
  obtain props h1 where a: "allocate_entries defs h = (props, h1)"
    by (cases "allocate_entries defs h")
  with assms have t: "t = length h1" and h': "h' = h1 @ [Table props]"
    by (auto simp: allocate_table_def alloc_def)
  from allocate_entries_value [OF a]
  have "list_all2 (\<lambda>(k, d) (k', v). k' = k \<and> definition_value h1 d = Some v) props defs"
    by blast
  then have "list_all2 (\<lambda>p q. (case p of (k, d) \<Rightarrow> map_option (Pair k) (definition_value h' d)) = Some q)
               props defs"
    unfolding h' by (rule list_all2_mono) (auto simp: definition_value_append)
  then show ?thesis
    unfolding t by (simp add: table_value_def h' heap_read_fresh those_map_Some_iff)
qed

section \<open>The claims\<close>

subsection \<open>The derivation rule\<close>

text \<open>
  C1. For every descriptor that the derivation produces: if \<open>isSmufl\<close> is true,
  \<open>justifiedSmuflDivergence\<close> is \<^verbatim>\<open>undefined\<close>; if \<open>isSmufl\<close> is false, it is a
  boolean, true exactly when the descriptor is a container, or is transcribable, or
  carries a divergence justification, and false otherwise.
\<close>

theorem justifiedSmuflDivergence_rule:
  assumes "mc = parseMungClassDefinition name def"
  shows "(isSmufl mc \<longrightarrow> justifiedSmuflDivergence mc = None) \<and>
         (\<not> isSmufl mc \<longrightarrow>
            justifiedSmuflDivergence mc =
              Some (isContainer mc \<or> isTranscribable mc
                    \<or> MungClass.otherSmuflDivergenceJustification mc \<noteq> None))"
proof -
  have "truthy_boolean (transcribable def) \<longleftrightarrow> transcribable def = Some True"
    by (cases "transcribable def") auto
  then show ?thesis
    unfolding assms by (simp add: parseMungClassDefinition_def Let_def)
qed

theorem justifiedSmuflDivergence_rule_witness:
  "justifiedSmuflDivergence (parseMungClassDefinition ''barlineSingle'' (uc_only [0xE030])) = None
   \<and> justifiedSmuflDivergence
        (parseMungClassDefinition ''measureSeparator''
           ((uc_only [0xE030])
              \<lparr>mpp := Some True, notSmufl := Some (Bool True), container := Some True\<rparr>))
       = Some True
   \<and> justifiedSmuflDivergence
        (parseMungClassDefinition ''barNumber''
           ((uc_only (ascii ''42''))\<lparr>mpp := Some True, notSmufl := Some (Bool True)\<rparr>))
       = Some False"
  using justifiedSmuflDivergence_rule [OF refl, of "''barlineSingle''" "uc_only [0xE030]"]
    justifiedSmuflDivergence_rule [OF refl, of "''measureSeparator''"
      "(uc_only [0xE030])\<lparr>mpp := Some True, notSmufl := Some (Bool True), container := Some True\<rparr>"]
    justifiedSmuflDivergence_rule [OF refl, of "''barNumber''"
      "(uc_only (ascii ''42''))\<lparr>mpp := Some True, notSmufl := Some (Bool True)\<rparr>"]
  by (simp add: parseMungClassDefinition_def uc_only_def)

text \<open>The rule holds in particular for every descriptor of the registry.\<close>

lemma MUNG_CLASSES_justified:
  assumes "mc \<in> set MUNG_CLASSES"
  shows "justifiedSmuflDivergence mc =
           (if isSmufl mc then None
            else Some (isContainer mc \<or> isTranscribable mc
                       \<or> MungClass.otherSmuflDivergenceJustification mc \<noteq> None))"
proof -
  from assms obtain key def where mc: "mc = parseMungClassDefinition key def"
    using MUNG_CLASSES_member by blast
  have "truthy_boolean (transcribable def) \<longleftrightarrow> transcribable def = Some True"
    by (cases "transcribable def") auto
  then show ?thesis
    unfolding mc by (simp add: parseMungClassDefinition_def Let_def)
qed

text \<open>
  C5. For every raw definition, \<open>isSmufl\<close> is the negation of the truthiness of
  \<open>notSmufl\<close>: true when \<open>notSmufl\<close> is missing or \<^verbatim>\<open>false\<close>, false when it is
  \<^verbatim>\<open>true\<close> or a non-empty string.
\<close>

theorem isSmufl_not_notSmufl:
  "isSmufl (parseMungClassDefinition name def) = (\<not> truthy (notSmufl def)) \<and>
   (notSmufl def = None \<or> notSmufl def = Some (Bool False)
      \<longrightarrow> isSmufl (parseMungClassDefinition name def)) \<and>
   (notSmufl def = Some (Bool True) \<or> (\<exists>s. s \<noteq> [] \<and> notSmufl def = Some (String s))
      \<longrightarrow> \<not> isSmufl (parseMungClassDefinition name def))"
  by (auto simp: parseMungClassDefinition_def Let_def)

theorem isSmufl_not_notSmufl_witness:
  "isSmufl (parseMungClassDefinition ''brace'' ((uc_only [0xE000])\<lparr>mpp := Some True\<rparr>))
   \<and> isSmufl (parseMungClassDefinition ''x'' ((uc_only [])\<lparr>notSmufl := Some (Bool False)\<rparr>))
   \<and> \<not> isSmufl (parseMungClassDefinition ''barlineWing''
         ((uc_only [0xE002, 0xE043])\<lparr>notSmufl := Some (Bool True)\<rparr>))
   \<and> \<not> isSmufl (parseMungClassDefinition ''x''
         ((uc_only [])\<lparr>notSmufl := Some (String ''not in SMuFL'')\<rparr>))"
  using isSmufl_not_notSmufl [of "''brace''" "(uc_only [0xE000])\<lparr>mpp := Some True\<rparr>"]
    isSmufl_not_notSmufl [of "''x''" "(uc_only [])\<lparr>notSmufl := Some (Bool False)\<rparr>"]
    isSmufl_not_notSmufl [of "''barlineWing''"
      "(uc_only [0xE002, 0xE043])\<lparr>notSmufl := Some (Bool True)\<rparr>"]
    isSmufl_not_notSmufl [of "''x''" "(uc_only [])\<lparr>notSmufl := Some (String ''not in SMuFL'')\<rparr>"]
  by (simp add: uc_only_def)

text \<open>
  The claim leaves the empty string out: it is falsy, so a definition whose
  \<open>notSmufl\<close> is the empty string is derived as a SMuFL class.
\<close>

lemma isSmufl_empty_string:
  "isSmufl (parseMungClassDefinition name (def\<lparr>notSmufl := Some (String [])\<rparr>))"
  by (simp add: parseMungClassDefinition_def Let_def)

text \<open>
  C6. The table entry \<^verbatim>\<open>unclassified\<close> (glyph \<^verbatim>\<open>?\<close>, \<open>notSmufl\<close> true, neither
  container nor transcribable, no justification) is derived as a descriptor with
  \<open>isSmufl\<close> false and \<open>justifiedSmuflDivergence\<close> false; this is the descriptor the
  registry holds under that name.
\<close>

theorem unclassified_descriptor:
  "object_get DEFINITIONS ''unclassified'' =
     Some ((uc_only (ascii ''?''))\<lparr>mpp := Some True, notSmufl := Some (Bool True)\<rparr>)
   \<and> byName ''unclassified'' =
       Class (parseMungClassDefinition ''unclassified''
                ((uc_only (ascii ''?''))\<lparr>mpp := Some True, notSmufl := Some (Bool True)\<rparr>))
   \<and> isSmufl (parseMungClassDefinition ''unclassified''
                ((uc_only (ascii ''?''))\<lparr>mpp := Some True, notSmufl := Some (Bool True)\<rparr>))
       = False
   \<and> justifiedSmuflDivergence (parseMungClassDefinition ''unclassified''
                ((uc_only (ascii ''?''))\<lparr>mpp := Some True, notSmufl := Some (Bool True)\<rparr>))
       = Some False"
  using DEFINITIONS_unclassified byName_key [OF DEFINITIONS_unclassified]
  by (simp add: parseMungClassDefinition_def uc_only_def)

subsection \<open>The views\<close>

text \<open>
  C2. \<^verbatim>\<open>MUNG_CLASS_NAMES\<close> is the list of the \<open>className\<close> fields of
  \<^verbatim>\<open>MUNG_CLASSES\<close>, in the same order; the list is in ascending lexicographic order
  and no name occurs twice (so it is strictly ascending).
\<close>

theorem MUNG_CLASS_NAMES_sorted_distinct:
  "MUNG_CLASS_NAMES = map className MUNG_CLASSES
   \<and> sorted MUNG_CLASS_NAMES
   \<and> sorted (map className MUNG_CLASSES)
   \<and> distinct MUNG_CLASS_NAMES
   \<and> sorted_wrt (<) MUNG_CLASS_NAMES"
proof -
  have names: "MUNG_CLASS_NAMES = map className MUNG_CLASSES"
    by (simp add: MUNG_CLASS_NAMES_def)
  have s: "sorted MUNG_CLASS_NAMES"
    unfolding MUNG_CLASS_NAMES_eq by simp
  have d: "distinct MUNG_CLASS_NAMES"
    by (rule distinct_MUNG_CLASS_NAMES)
  from s d have "sorted_wrt (<) MUNG_CLASS_NAMES"
    by (simp add: strict_sorted_iff)
  with names s d show ?thesis by simp
qed

text \<open>The names are those of the table, and there are as many descriptors as names.\<close>

lemma MUNG_CLASS_NAMES_set: "set MUNG_CLASS_NAMES = set (object_keys DEFINITIONS)"
  unfolding MUNG_CLASS_NAMES_eq by simp

text \<open>
  C3. For every class name \<open>n\<close> of the table, \<^verbatim>\<open>MUNG_CLASSES_BY_NAME[n]\<close> is a
  descriptor whose \<open>className\<close> is \<open>n\<close>.
\<close>

theorem byName_className:
  "\<forall>n \<in> set (object_keys DEFINITIONS). \<exists>mc. byName n = Class mc \<and> className mc = n"
proof
  fix n assume "n \<in> set (object_keys DEFINITIONS)"
  from object_get_key [OF this] obtain def where "object_get DEFINITIONS n = Some def" ..
  from byName_key [OF this] show "\<exists>mc. byName n = Class mc \<and> className mc = n"
    by simp
qed

theorem byName_className_witness:
  "''noteheadBlack'' \<in> set (object_keys DEFINITIONS)
   \<and> (\<exists>mc. byName ''noteheadBlack'' = Class mc \<and> className mc = ''noteheadBlack'')"
proof -
  have k: "''noteheadBlack'' \<in> set (object_keys DEFINITIONS)"
    using DEFINITIONS_noteheadBlack object_get_None_iff [of DEFINITIONS "''noteheadBlack''"]
    by (simp add: set_object_keys)
  with byName_className show ?thesis by blast
qed

text \<open>
  C4. For every name that is not a class name of the table,
  \<^verbatim>\<open>MUNG_CLASSES_BY_NAME[name]\<close> should be \<^verbatim>\<open>undefined\<close>. The dictionary is built
  from \<^verbatim>\<open>{}\<close>, so it inherits from \<^verbatim>\<open>Object.prototype\<close>: \<^verbatim>\<open>toString\<close> is not a
  class name, and the lookup returns the inherited member instead of \<^verbatim>\<open>undefined\<close>.
\<close>

theorem byName_toString_inherited:
  "''toString'' \<notin> set (object_keys DEFINITIONS)
   \<and> byName ''toString'' = InheritedFromObjectPrototype ''toString''
   \<and> byName ''toString'' \<noteq> Undefined"
  using DEFINITIONS_no_toString byName_not_key [OF DEFINITIONS_no_toString]
  by (simp add: Object_prototype_properties_def)

text \<open>
  What does hold: a name that is neither a class name nor a property of
  \<^verbatim>\<open>Object.prototype\<close> reads as \<^verbatim>\<open>undefined\<close>, as \<^verbatim>\<open>doesNotExist\<close> does; and the
  lookup is total, so it never throws.
\<close>

lemma byName_absent:
  "name \<notin> set (object_keys DEFINITIONS) \<Longrightarrow> name \<notin> set Object_prototype_properties
     \<Longrightarrow> byName name = Undefined"
  by (simp add: byName_not_key)

lemma byName_doesNotExist: "byName ''doesNotExist'' = Undefined"
  using byName_not_key [OF DEFINITIONS_no_doesNotExist]
  by (simp add: Object_prototype_properties_def)

text \<open>
  C8. Constructing the registry twice from the same table gives element-wise equal
  sequences of descriptors, and the construction is a pure function of the table. On
  the heap: whenever the reference \<open>t\<close> holds a table, a first run and then a second
  run from the heap that the first one left both succeed; the two arrays they return
  are different objects that stand for the same list of descriptors, the list that the
  construction on values gives for the table; the first array still stands for it
  after the second run; and the table, like every object that existed before the
  first run, is the same after both (nothing is written but fresh objects).
\<close>

theorem registry_constructed_twice:
  assumes "table_value h t = Some defs"
  shows "\<exists>r1 h1 r2 h2 classes.
           mungClasses_heap t h = Some (r1, h1) \<and> mungClasses_heap t h1 = Some (r2, h2)
           \<and> classes_value h1 r1 = Some classes \<and> classes_value h2 r2 = Some classes
           \<and> classes_value h2 r1 = Some classes
           \<and> mungClasses defs = Some classes
           \<and> r1 \<noteq> r2
           \<and> table_value h1 t = Some defs \<and> table_value h2 t = Some defs
           \<and> (\<forall>a < length h. heap_read h1 a = heap_read h a \<and> heap_read h2 a = heap_read h a)"
proof -
  from mungClasses_heap_run [OF assms] obtain r1 e1
    where run1: "mungClasses_heap t h = Some (r1, h @ e1)"
      and v1: "classes_value (h @ e1) r1 = mungClasses defs" by blast
  have t1: "table_value (h @ e1) t = Some defs"
    by (rule table_value_append [OF assms])
  from mungClasses_heap_run [OF t1] obtain r2 e2
    where run2: "mungClasses_heap t (h @ e1) = Some (r2, (h @ e1) @ e2)"
      and v2: "classes_value ((h @ e1) @ e2) r2 = mungClasses defs"
      and fresh: "length (h @ e1) \<le> r2" by blast
  obtain classes where cl: "mungClasses defs = Some classes"
    using mungClassesWith_eq [OF sort_contract_sort, of defs] by (simp add: mungClasses_def)
  from v1 cl have c1: "classes_value (h @ e1) r1 = Some classes" by simp
  then have "r1 < length (h @ e1)"
    by (auto simp: classes_value_def split: option.splits dest: heap_read_Some_lt)
  with fresh have ne: "r1 \<noteq> r2" by simp
  have c12: "classes_value ((h @ e1) @ e2) r1 = Some classes"
    by (rule classes_value_append [OF c1])
  have t2: "table_value ((h @ e1) @ e2) t = Some defs"
    by (rule table_value_append [OF t1])
  have frame: "\<forall>a < length h. heap_read (h @ e1) a = heap_read h a
                 \<and> heap_read ((h @ e1) @ e2) a = heap_read h a"
    by (simp add: heap_read_append)
  from run1 run2 c1 v2 cl c12 ne t1 t2 frame show ?thesis
    by (intro exI [of _ r1] exI [of _ "h @ e1"] exI [of _ r2] exI [of _ "(h @ e1) @ e2"]
        exI [of _ classes]) simp
qed

theorem registry_constructed_twice_witness:
  "let staffGrouping = (uc_only [0xE000])\<lparr>mpp := Some True, notSmufl := Some (Bool True),
                          smuflEquivalents := Some [''brace'', ''bracket'']\<rparr>;
       brace = (uc_only [0xE000])\<lparr>mpp := Some True\<rparr>;
       defs = [(''staffGrouping'', staffGrouping), (''brace'', brace)];
       h = [StringArray [''brace'', ''bracket''],
            Definition \<lparr>def_uc = [0xE000], def_mpp = Some True, def_notSmufl = Some (Bool True),
              def_smuflEquivalents = Some 0, def_container = None,
              def_otherSmuflDivergenceJustification = None, def_transcribable = None\<rparr>,
            Definition \<lparr>def_uc = [0xE000], def_mpp = Some True, def_notSmufl = None,
              def_smuflEquivalents = None, def_container = None,
              def_otherSmuflDivergenceJustification = None, def_transcribable = None\<rparr>,
            Table [(''staffGrouping'', 1), (''brace'', 2)]];
       classes = [parseMungClassDefinition ''brace'' brace,
                  parseMungClassDefinition ''staffGrouping'' staffGrouping]
   in table_value h 3 = Some defs
      \<and> (\<exists>r1 h1 r2 h2.
            mungClasses_heap 3 h = Some (r1, h1) \<and> mungClasses_heap 3 h1 = Some (r2, h2)
            \<and> classes_value h1 r1 = Some classes \<and> classes_value h2 r2 = Some classes
            \<and> classes_value h2 r1 = Some classes
            \<and> r1 \<noteq> r2
            \<and> table_value h2 3 = Some defs
            \<and> heap_read h2 0 = Some (StringArray [''brace'', ''bracket'']))"
proof -
  define staffGrouping where "staffGrouping =
    (uc_only [0xE000])\<lparr>mpp := Some True, notSmufl := Some (Bool True),
       smuflEquivalents := Some [''brace'', ''bracket'']\<rparr>"
  define brace where "brace = (uc_only [0xE000])\<lparr>mpp := Some True\<rparr>"
  define defs where "defs = [(''staffGrouping'', staffGrouping), (''brace'', brace)]"
  define h where "h =
    [StringArray [''brace'', ''bracket''],
     Definition \<lparr>def_uc = [0xE000], def_mpp = Some True, def_notSmufl = Some (Bool True),
       def_smuflEquivalents = Some 0, def_container = None,
       def_otherSmuflDivergenceJustification = None, def_transcribable = None\<rparr>,
     Definition \<lparr>def_uc = [0xE000], def_mpp = Some True, def_notSmufl = None,
       def_smuflEquivalents = None, def_container = None,
       def_otherSmuflDivergenceJustification = None, def_transcribable = None\<rparr>,
     Table [(''staffGrouping'', 1), (''brace'', 2)]]"
  have hyp: "table_value h 3 = Some defs"
    by (simp add: table_value_def definition_value_def equivalents_value_def heap_read_def
        h_def defs_def staffGrouping_def brace_def uc_only_def)
  have keys: "sort (object_keys defs) = [''brace'', ''staffGrouping'']"
    by (simp add: defs_def)
  have cl: "mungClasses defs = Some [parseMungClassDefinition ''brace'' brace,
                                     parseMungClassDefinition ''staffGrouping'' staffGrouping]"
    unfolding mungClasses_def mungClassesWith_def keys by (simp add: defs_def)
  have old: "heap_read h 0 = Some (StringArray [''brace'', ''bracket''])"
    by (simp add: heap_read_def h_def)
  from registry_constructed_twice [OF hyp] cl old hyp
  have "table_value h 3 = Some defs
      \<and> (\<exists>r1 h1 r2 h2.
            mungClasses_heap 3 h = Some (r1, h1) \<and> mungClasses_heap 3 h1 = Some (r2, h2)
            \<and> classes_value h1 r1 = Some [parseMungClassDefinition ''brace'' brace,
                                     parseMungClassDefinition ''staffGrouping'' staffGrouping]
            \<and> classes_value h2 r2 = Some [parseMungClassDefinition ''brace'' brace,
                                     parseMungClassDefinition ''staffGrouping'' staffGrouping]
            \<and> classes_value h2 r1 = Some [parseMungClassDefinition ''brace'' brace,
                                     parseMungClassDefinition ''staffGrouping'' staffGrouping]
            \<and> r1 \<noteq> r2
            \<and> table_value h2 3 = Some defs
            \<and> heap_read h2 0 = Some (StringArray [''brace'', ''bracket'']))"
    by (auto simp: h_def)
  then show ?thesis
    unfolding Let_def staffGrouping_def brace_def defs_def h_def .
qed

text \<open>
  The result depends on the table only: runs on any two heaps whose tables stand for
  the same value return arrays that stand for the same list. And for the module's
  table, laid out by the evaluation of its literal, that list is \<^verbatim>\<open>MUNG_CLASSES\<close>.
\<close>

lemma mungClasses_heap_table_only:
  assumes "table_value h t = Some defs" and "table_value h' t' = Some defs"
  shows "\<exists>r1 h1 r2 h2 classes.
           mungClasses_heap t h = Some (r1, h1) \<and> mungClasses_heap t' h' = Some (r2, h2)
           \<and> classes_value h1 r1 = Some classes \<and> classes_value h2 r2 = Some classes"
proof -
  obtain classes where cl: "mungClasses defs = Some classes"
    using mungClassesWith_eq [OF sort_contract_sort, of defs] by (simp add: mungClasses_def)
  from mungClasses_heap_run [OF assms(1)] mungClasses_heap_run [OF assms(2)] cl
  show ?thesis by fastforce
qed

lemma mungClasses_heap_DEFINITIONS:
  assumes "allocate_table DEFINITIONS [] = (t, h)"
  shows "\<exists>r h'. mungClasses_heap t h = Some (r, h') \<and> classes_value h' r = Some MUNG_CLASSES
           \<and> table_value h' t = Some DEFINITIONS"
proof -
  have tv: "table_value h t = Some DEFINITIONS"
    by (rule allocate_table_value [OF assms])
  from mungClasses_heap_run [OF tv] table_value_append [OF tv] mungClasses_DEFINITIONS
  show ?thesis by fastforce
qed

subsection \<open>The data of the table\<close>

text \<open>
  C9. No entry of the table gives \<open>notSmufl\<close> a string: in every entry it is missing
  or the boolean \<^verbatim>\<open>true\<close>.
\<close>

theorem notSmufl_never_string:
  "\<forall>(k, d) \<in> set DEFINITIONS. notSmufl d = None \<or> notSmufl d = Some (Bool True)"
  using DEFINITIONS_notSmufl by (simp add: list_all_iff)

theorem notSmufl_never_string_witness:
  "(''unclassified'', (uc_only (ascii ''?''))\<lparr>mpp := Some True, notSmufl := Some (Bool True)\<rparr>)
     \<in> set DEFINITIONS
   \<and> notSmufl ((uc_only (ascii ''?''))\<lparr>mpp := Some True, notSmufl := Some (Bool True)\<rparr>)
       = Some (Bool True)"
proof -
  have m: "(''unclassified'',
            (uc_only (ascii ''?''))\<lparr>mpp := Some True, notSmufl := Some (Bool True)\<rparr>)
           \<in> set DEFINITIONS"
    by (rule object_get_Some_mem [OF DEFINITIONS_unclassified])
  from notSmufl_never_string m show ?thesis by auto
qed

text \<open>
  C10. Every transcribable class of the registry is not a SMuFL class, and so its
  \<open>justifiedSmuflDivergence\<close> is true.
\<close>

theorem transcribable_not_smufl:
  "\<forall>mc \<in> set MUNG_CLASSES.
     isTranscribable mc \<longrightarrow> \<not> isSmufl mc \<and> justifiedSmuflDivergence mc = Some True"
proof (intro ballI impI)
  fix mc assume "mc \<in> set MUNG_CLASSES" and t: "isTranscribable mc"
  then obtain key def where g: "object_get DEFINITIONS key = Some def"
    and mc: "mc = parseMungClassDefinition key def"
    using MUNG_CLASSES_member by blast
  from t have tr: "transcribable def = Some True"
    unfolding mc by (cases "transcribable def") (simp_all add: parseMungClassDefinition_def Let_def)
  from object_get_Some_mem [OF g] DEFINITIONS_transcribable tr
  have "notSmufl def = Some (Bool True)"
    by (auto simp: list_all_iff)
  with tr show "\<not> isSmufl mc \<and> justifiedSmuflDivergence mc = Some True"
    unfolding mc by (simp add: parseMungClassDefinition_def Let_def)
qed

theorem transcribable_not_smufl_witness:
  "parseMungClassDefinition ''repeatText''
     ((uc_only (ascii ''D.C.''))\<lparr>notSmufl := Some (Bool True), transcribable := Some True\<rparr>)
     \<in> set MUNG_CLASSES
   \<and> isTranscribable (parseMungClassDefinition ''repeatText''
       ((uc_only (ascii ''D.C.''))\<lparr>notSmufl := Some (Bool True), transcribable := Some True\<rparr>))
   \<and> \<not> isSmufl (parseMungClassDefinition ''repeatText''
       ((uc_only (ascii ''D.C.''))\<lparr>notSmufl := Some (Bool True), transcribable := Some True\<rparr>))
   \<and> justifiedSmuflDivergence (parseMungClassDefinition ''repeatText''
       ((uc_only (ascii ''D.C.''))\<lparr>notSmufl := Some (Bool True), transcribable := Some True\<rparr>))
       = Some True"
proof -
  have m: "parseMungClassDefinition ''repeatText''
     ((uc_only (ascii ''D.C.''))\<lparr>notSmufl := Some (Bool True), transcribable := Some True\<rparr>)
     \<in> set MUNG_CLASSES"
    using DEFINITIONS_repeatText MUNG_CLASSES_member by blast
  have t: "isTranscribable (parseMungClassDefinition ''repeatText''
       ((uc_only (ascii ''D.C.''))\<lparr>notSmufl := Some (Bool True), transcribable := Some True\<rparr>))"
    by (simp add: parseMungClassDefinition_def uc_only_def)
  from transcribable_not_smufl m t show ?thesis by blast
qed

text \<open>
  C7. Every name listed in the \<open>smuflEquivalents\<close> of a descriptor of the registry
  should itself be a class name of the registry. The descriptor of \<^verbatim>\<open>staff\<close> breaks
  this: it lists \<^verbatim>\<open>staff5Lines\<close>, and the table has no class of that name.
\<close>

theorem smuflEquivalents_staff_unresolved:
  "parseMungClassDefinition ''staff''
     ((uc_only [0xE01A, 0x2800])\<lparr>mpp := Some True, smuflEquivalents := Some [''staff5Lines'']\<rparr>)
     \<in> set MUNG_CLASSES
   \<and> MungClass.smuflEquivalents (parseMungClassDefinition ''staff''
       ((uc_only [0xE01A, 0x2800])\<lparr>mpp := Some True, smuflEquivalents := Some [''staff5Lines'']\<rparr>))
       = Some [''staff5Lines'']
   \<and> ''staff5Lines'' \<notin> set MUNG_CLASS_NAMES
   \<and> ''staff5Lines'' \<notin> set (object_keys DEFINITIONS)"
proof -
  have m: "parseMungClassDefinition ''staff''
     ((uc_only [0xE01A, 0x2800])\<lparr>mpp := Some True, smuflEquivalents := Some [''staff5Lines'']\<rparr>)
     \<in> set MUNG_CLASSES"
    using DEFINITIONS_staff MUNG_CLASSES_member by blast
  have e: "MungClass.smuflEquivalents (parseMungClassDefinition ''staff''
       ((uc_only [0xE01A, 0x2800])\<lparr>mpp := Some True, smuflEquivalents := Some [''staff5Lines'']\<rparr>))
       = Some [''staff5Lines'']"
    by (simp add: parseMungClassDefinition_def uc_only_def)
  from m e DEFINITIONS_no_staff5Lines show ?thesis
    by (simp add: MUNG_CLASS_NAMES_set)
qed

text \<open>
  It is the only such name: every other name listed in the \<open>smuflEquivalents\<close> of a
  descriptor of the registry is a class name of the registry.
\<close>

lemma smuflEquivalents_others_resolved:
  assumes "mc \<in> set MUNG_CLASSES" and "MungClass.smuflEquivalents mc = Some es"
    and "e \<in> set es"
  shows "e \<in> set MUNG_CLASS_NAMES \<or> (className mc = ''staff'' \<and> e = ''staff5Lines'')"
proof -
  from assms(1) obtain key def where g: "object_get DEFINITIONS key = Some def"
    and mc: "mc = parseMungClassDefinition key def"
    using MUNG_CLASSES_member by blast
  from assms(2) have "smuflEquivalents def = Some es"
    unfolding mc by (simp add: parseMungClassDefinition_def Let_def)
  with object_get_Some_mem [OF g] DEFINITIONS_equivalents assms(3)
  have "e \<in> fst ` set DEFINITIONS \<or> (key = ''staff'' \<and> e = ''staff5Lines'')"
    by (fastforce simp: list_all_iff)
  then show ?thesis
    unfolding mc by (simp add: MUNG_CLASS_NAMES_set set_object_keys)
qed

end
